theory Spec2Isabelle
  imports Complex_Main "HOL-Library.Product_Lexorder" "HOL-Library.Log_Nat"
begin

section \<open>Sales analytics reports of \<open>server.js\<close>\<close>

text \<open>
  The four report handlers of \<open>server.js\<close> (\<open>/api/sales-analytics/time-series\<close>,
  \<open>/users\<close>, \<open>/groups\<close>, \<open>/trends\<close>) read their parameters from \<open>req.query\<close>, run one SQL
  query each and map the rows of the result to the objects of the response.  The embedding
  follows the handlers line by line; each SQL query is written as the list computation that
  its clauses denote (joins as list comprehensions, \<open>GROUP BY\<close> as grouping on a key,
  aggregates as functions on the column of a group, \<open>ORDER BY\<close> as a stable sort,
  \<open>LIMIT\<close> as \<open>take\<close>).  An error raised by the database makes \<open>client.query\<close> throw, which
  the handler's \<open>catch\<close> answers with status 500.

  Numbers: PostgreSQL's \<open>numeric\<close> values and the JavaScript numbers read from them are
  rationals here (\<open>rat\<close>), and division is exact; the rounding of \<open>::numeric(10,2)\<close> and its
  overflow, \<open>NULL\<close>, division by zero and JavaScript's \<open>NaN\<close> are written out.  Where a
  property depends on the value of a quotient (the revenue per member of the group report)
  the handler is given a second time with the rounding of the \<open>numeric\<close> quotient and of
  the JavaScript number made explicit.
\<close>

subsection \<open>Calendar dates and \<open>DATE_TRUNC\<close>\<close>

text \<open>A date is (year, month, day); the lexicographic order of the triple is the
  chronological order.\<close>

type_synonym date = "int \<times> int \<times> int"

definition leap_year :: "int \<Rightarrow> bool" where
  "leap_year y = (y mod 4 = 0 \<and> (y mod 100 \<noteq> 0 \<or> y mod 400 = 0))"

definition days_in_month :: "int \<Rightarrow> int \<Rightarrow> int" where
  "days_in_month y m =
     (if m = 2 then (if leap_year y then 29 else 28)
      else if m = 4 \<or> m = 6 \<or> m = 9 \<or> m = 11 then 30 else 31)"

definition valid_date :: "date \<Rightarrow> bool" where
  "valid_date dt = (case dt of (y, m, d) \<Rightarrow> 1 \<le> m \<and> m \<le> 12 \<and> 1 \<le> d \<and> d \<le> days_in_month y m)"

definition prev_day :: "date \<Rightarrow> date" where
  "prev_day dt = (case dt of (y, m, d) \<Rightarrow>
     if 1 < d then (y, m, d - 1)
     else if 1 < m then (y, m - 1, days_in_month y (m - 1))
     else (y - 1, 12, 31))"

text \<open>Days since Monday (Monday 0, ..., Sunday 6), by the month-offset table of the usual
  day-of-week formula.\<close>

definition month_offset :: "int \<Rightarrow> int" where
  "month_offset m = [0, 3, 2, 5, 0, 3, 5, 1, 4, 6, 2, 4] ! nat (m - 1)"

definition days_since_monday :: "date \<Rightarrow> nat" where
  "days_since_monday dt = (case dt of (y, m, d) \<Rightarrow>
     let y' = (if m < 3 then y - 1 else y)
     in nat ((y' + y' div 4 - y' div 100 + y' div 400 + month_offset m + d + 6) mod 7))"

datatype field = Day | Week | Month | Quarter | Year

text \<open>\<open>DATE_TRUNC(field, s.date)\<close>: the first day of the day, ISO week (its Monday), month,
  quarter or year that holds the date.\<close>

definition date_trunc :: "field \<Rightarrow> date \<Rightarrow> date" where
  "date_trunc u dt = (case dt of (y, m, d) \<Rightarrow>
     (case u of
        Day \<Rightarrow> (y, m, d)
      | Week \<Rightarrow> (prev_day ^^ days_since_monday dt) dt
      | Month \<Rightarrow> (y, m, 1)
      | Quarter \<Rightarrow> (y, 3 * ((m - 1) div 3) + 1, 1)
      | Year \<Rightarrow> (y, 1, 1)))"

text \<open>The field names that \<open>DATE_TRUNC\<close> is called with; any other name is an error of the
  database.\<close>

definition field_of :: "string \<Rightarrow> field option" where
  "field_of s =
     (if s = ''day'' then Some Day
      else if s = ''week'' then Some Week
      else if s = ''month'' then Some Month
      else if s = ''quarter'' then Some Quarter
      else if s = ''year'' then Some Year
      else None)"

subsection \<open>SQL values, errors and aggregates\<close>

text \<open>A nullable column is an \<open>option\<close> (\<open>None\<close> is \<open>NULL\<close>).  The errors are the ones
  the queries of \<open>server.js\<close> can meet in the database.\<close>

datatype db_error =
    Invalid_text_representation  \<comment> \<open>a parameter that does not read as an integer\<close>
  | Invalid_datetime_format  \<comment> \<open>a parameter that does not read as a date\<close>
  | Division_by_zero
  | Numeric_value_out_of_range  \<comment> \<open>overflow of \<open>numeric(10,2)\<close>, a \<open>LIMIT\<close> beyond \<open>bigint\<close>\<close>
  | Invalid_row_count_in_limit_clause  \<comment> \<open>a negative \<open>LIMIT\<close>\<close>
  | Invalid_parameter_value  \<comment> \<open>a field that \<open>DATE_TRUNC\<close> does not know\<close>
  | Undefined_parameter  \<comment> \<open>\<open>$n\<close> beyond the parameters supplied\<close>
  | Undefined_table  \<comment> \<open>a column of a table that is not in the \<open>FROM\<close> clause\<close>

text \<open>\<open>COUNT(e)\<close>, \<open>SUM(e)\<close>, \<open>AVG(e)\<close>, \<open>COUNT(DISTINCT e)\<close> over the column of a group:
  \<open>NULL\<close>s are skipped, and \<open>SUM\<close> and \<open>AVG\<close> of no value are \<open>NULL\<close>.\<close>

definition non_null :: "'a option list \<Rightarrow> 'a list" where
  "non_null col = concat (map (\<lambda>v. case v of None \<Rightarrow> [] | Some x \<Rightarrow> [x]) col)"

definition sql_count :: "'a option list \<Rightarrow> int" where
  "sql_count col = int (length (non_null col))"

definition sql_count_distinct :: "'a option list \<Rightarrow> int" where
  "sql_count_distinct col = int (length (remdups (non_null col)))"

definition sql_sum :: "rat option list \<Rightarrow> rat option" where
  "sql_sum col = (if non_null col = [] then None else Some (sum_list (non_null col)))"

definition sql_avg :: "rat option list \<Rightarrow> rat option" where
  "sql_avg col =
     (if non_null col = [] then None
      else Some (sum_list (non_null col) / of_nat (length (non_null col))))"

text \<open>\<open>a / b\<close> and \<open>a - b\<close>, \<open>a * b\<close>: \<open>NULL\<close> if an operand is \<open>NULL\<close> (the operator is
  not evaluated then), an error for a zero divisor.  The quotient is exact here;
  \<open>sql_div_rounded\<close> below takes the rounding of the database as a parameter.\<close>

definition sql_div :: "rat option \<Rightarrow> rat option \<Rightarrow> db_error + rat option" where
  "sql_div a b =
     (case (a, b) of
        (Some x, Some y) \<Rightarrow> if y = 0 then Inl Division_by_zero else Inr (Some (x / y))
      | _ \<Rightarrow> Inr None)"

definition sql_minus :: "rat option \<Rightarrow> rat option \<Rightarrow> rat option" where
  "sql_minus a b = (case (a, b) of (Some x, Some y) \<Rightarrow> Some (x - y) | _ \<Rightarrow> None)"

definition sql_times :: "rat option \<Rightarrow> rat option \<Rightarrow> rat option" where
  "sql_times a b = (case (a, b) of (Some x, Some y) \<Rightarrow> Some (x * y) | _ \<Rightarrow> None)"

text \<open>\<open>e::numeric(10,2)\<close>: round to two decimal places, half away from zero; a rounded value
  of 10^8 or more in absolute value does not fit and is an error.\<close>

definition round2 :: "rat \<Rightarrow> rat" where
  "round2 x =
     (if 0 \<le> x then of_int \<lfloor>x * 100 + 1 / 2\<rfloor> / 100
      else - (of_int \<lfloor>- x * 100 + 1 / 2\<rfloor> / 100))"

definition numeric_10_2 :: "rat option \<Rightarrow> db_error + rat option" where
  "numeric_10_2 v =
     (case v of
        None \<Rightarrow> Inr None
      | Some x \<Rightarrow>
          if \<bar>round2 x\<bar> < 100000000 then Inr (Some (round2 x))
          else Inl Numeric_value_out_of_range)"

text \<open>A select list evaluated on every group: the first error aborts the query.\<close>

fun all_rows :: "('e + 'a) list \<Rightarrow> 'e + 'a list" where
  "all_rows [] = Inr []"
| "all_rows (r # rs) =
     (case r of
        Inl e \<Rightarrow> Inl e
      | Inr x \<Rightarrow> (case all_rows rs of Inl e \<Rightarrow> Inl e | Inr xs \<Rightarrow> Inr (x # xs)))"

text \<open>\<open>GROUP BY key\<close>: one group per distinct key, holding the rows with that key.\<close>

definition group_by :: "('r \<Rightarrow> 'k) \<Rightarrow> 'r list \<Rightarrow> ('k \<times> 'r list) list" where
  "group_by key rows =
     map (\<lambda>k. (k, filter (\<lambda>r. key r = k) rows)) (remdups (map key rows))"

text \<open>\<open>t LEFT JOIN t' ON c\<close>, for one row of \<open>t\<close>: its matches in \<open>t'\<close>, or one \<open>NULL\<close> row.\<close>

definition left_join :: "('b \<Rightarrow> bool) \<Rightarrow> 'b list \<Rightarrow> 'b option list" where
  "left_join on t = (if filter on t = [] then [None] else map Some (filter on t))"

text \<open>\<open>ORDER BY e DESC NULLS LAST\<close> sorts on this key, ascending: the non-\<open>NULL\<close>
  values first, the larger the earlier.  The sort is stable; the database may order rows of
  equal key in any way.\<close>

definition desc_nulls_last :: "rat option \<Rightarrow> int \<times> rat" where
  "desc_nulls_last v = (case v of None \<Rightarrow> (1, 0) | Some x \<Rightarrow> (0, - x))"

subsection \<open>The tables\<close>

text \<open>
  Modelled from the spec: the tables are created by \<open>seed.js\<close>, which is not among the
  sources.  The queries fix the columns they read: \<open>users(id, name, role)\<close>,
  \<open>groups(id, name)\<close>, \<open>user_groups(user_id, group_id)\<close>,
  \<open>sales(id, user_id, amount, date)\<close>.  By the spec's data model an identifier is an
  integer, a sale's amount is a decimal and its date a calendar date, and none of them is
  \<open>NULL\<close>.  No key or foreign key is assumed.
\<close>

record users_row =
  u_id :: int
  u_name :: string
  u_role :: string

record groups_row =
  g_id :: int
  g_name :: string

record user_groups_row =
  ug_user_id :: int
  ug_group_id :: int

record sales_row =
  s_id :: int
  s_user_id :: int
  s_amount :: rat
  s_date :: date

record database =
  users :: "users_row list"
  groups :: "groups_row list"
  user_groups :: "user_groups_row list"
  sales :: "sales_row list"

subsection \<open>JavaScript values\<close>

text \<open>A JavaScript number read from a column is a rational or \<open>NaN\<close>; \<open>res.json\<close> writes
  \<open>NaN\<close> as \<open>null\<close>.\<close>

datatype jsnum = NaN | Num rat

datatype json = JNull | JNum rat

text \<open>\<open>parseFloat(row.c)\<close> of a numeric column: \<open>NaN\<close> for \<open>null\<close>.  The number read is
  exact here; \<open>parseFloat_rounded\<close> below takes the rounding to a double as a parameter.\<close>

definition parseFloat :: "rat option \<Rightarrow> jsnum" where
  "parseFloat v = (case v of None \<Rightarrow> NaN | Some x \<Rightarrow> Num x)"

text \<open>\<open>x || 0\<close>: \<open>NaN\<close> and \<open>0\<close> are falsy.\<close>

definition or_0 :: "jsnum \<Rightarrow> jsnum" where
  "or_0 x = (case x of NaN \<Rightarrow> Num 0 | Num r \<Rightarrow> if r = 0 then Num 0 else Num r)"

definition to_json :: "jsnum \<Rightarrow> json" where
  "to_json x = (case x of NaN \<Rightarrow> JNull | Num r \<Rightarrow> JNum r)"

text \<open>\<open>parseInt(s)\<close> of a string: leading white space, a sign, \<open>0x\<close> for radix 16, then the
  longest run of digits; \<open>None\<close> is \<open>NaN\<close>.  The result is the exact integer (a
  JavaScript number rounds integers beyond 2^53), and white space is the ASCII white space
  (JavaScript also skips the Unicode spaces).\<close>

definition white_space :: "char \<Rightarrow> bool" where
  "white_space c = (c \<in> set [CHR '' '', CHR 0x09, CHR 0x0A, CHR 0x0B, CHR 0x0C, CHR 0x0D])"

definition digit_value :: "char \<Rightarrow> nat option" where
  "digit_value c =
     (let n = (of_char c :: nat)
      in if 48 \<le> n \<and> n \<le> 57 then Some (n - 48)
         else if 97 \<le> n \<and> n \<le> 122 then Some (n - 87)
         else if 65 \<le> n \<and> n \<le> 90 then Some (n - 55)
         else None)"

definition is_digit :: "nat \<Rightarrow> char \<Rightarrow> bool" where
  "is_digit radix c = (case digit_value c of None \<Rightarrow> False | Some v \<Rightarrow> v < radix)"

definition digits_value :: "nat \<Rightarrow> string \<Rightarrow> int" where
  "digits_value radix ds = foldl (\<lambda>acc c. acc * int radix + int (the (digit_value c))) 0 ds"

definition parseInt :: "string \<Rightarrow> int option" where
  "parseInt str =
     (let s = dropWhile white_space str;
          neg = (s \<noteq> [] \<and> hd s = CHR ''-'');
          s1 = (if s \<noteq> [] \<and> (hd s = CHR ''-'' \<or> hd s = CHR ''+'') then tl s else s);
          hex = (2 \<le> length s1 \<and> hd s1 = CHR ''0'' \<and> (s1 ! 1 = CHR ''x'' \<or> s1 ! 1 = CHR ''X''));
          radix = (if hex then 16 else 10);
          s2 = (if hex then drop 2 s1 else s1);
          z = takeWhile (is_digit radix) s2
      in if z = [] then None
         else Some ((if neg then - 1 else 1) * digits_value radix z))"

text \<open>The date input of the database is a parameter \<open>rd\<close> of the queries (\<open>None\<close>: the
  text is no date).  \<open>iso_date\<close> reads the format \<open>YYYY-MM-DD\<close>, the one
  \<open>toISOString().split('T')[0]\<close> and the default \<open>'2021-01-01'\<close> have.\<close>

definition iso_date :: "string \<Rightarrow> date option" where
  "iso_date s =
     (if length s = 10 \<and> s ! 4 = CHR ''-'' \<and> s ! 7 = CHR ''-''
         \<and> list_all (is_digit 10) (take 4 s @ take 2 (drop 5 s) @ drop 8 s)
      then (let dt = (digits_value 10 (take 4 s), digits_value 10 (take 2 (drop 5 s)),
                      digits_value 10 (drop 8 s))
            in if valid_date dt then Some dt else None)
      else None)"

subsection \<open>Request parameters\<close>

text \<open>\<open>req.query\<close>: each parameter is absent (\<open>None\<close>, \<open>undefined\<close>) or a string.
  (A repeated or bracketed parameter, which the query parser turns into an array or an
  object, is left out.)\<close>

record query =
  startDate :: "string option"
  endDate :: "string option"
  interval :: "string option"
  userId :: "string option"
  groupId :: "string option"
  metric :: "string option"
  limit :: "string option"

text \<open>A destructuring default \<open>{ x = d }\<close> replaces \<open>undefined\<close> only; \<open>if (x)\<close> and
  \<open>x || d\<close> also take the empty string as absent.\<close>

definition or_default :: "string option \<Rightarrow> string \<Rightarrow> string" where
  "or_default v d = (case v of None \<Rightarrow> d | Some s \<Rightarrow> s)"

definition truthy :: "string option \<Rightarrow> bool" where
  "truthy v = (case v of None \<Rightarrow> False | Some s \<Rightarrow> s \<noteq> [])"

text \<open>\<open>const end = endDate || new Date().toISOString().split('T')[0]\<close>; the current date
  is the parameter \<open>today\<close>.\<close>

definition end_date :: "string \<Rightarrow> query \<Rightarrow> string" where
  "end_date today q = (if truthy (endDate q) then or_default (endDate q) today else today)"

definition validIntervals :: "string list" where
  "validIntervals = [''day'', ''week'', ''month'', ''quarter'', ''year'']"

definition timeInterval :: "query \<Rightarrow> string" where
  "timeInterval q =
     (let interval = or_default (interval q) ''month''
      in if interval \<in> set validIntervals then interval else ''month'')"

subsection \<open>Time series: the filter, the query, the handler\<close>

text \<open>The values pushed on \<open>params\<close> are strings and results of \<open>parseInt\<close>.  A pushed
  clause is \<open>'s.date >= $n'\<close>, \<open>'s.date <= $n'\<close>, \<open>'s.user_id = $n'\<close> or
  \<open>'ug.group_id = $n'\<close>.\<close>

datatype param = Text string | Number "int option"

datatype clause = Date_ge nat | Date_le nat | User_id_eq nat | Group_id_eq nat

definition time_series_filter :: "string \<Rightarrow> query \<Rightarrow> clause list \<times> param list" where
  "time_series_filter today q =
     (let whereClauses = [Date_ge 1, Date_le 2];
          params = [Text (or_default (startDate q) ''2021-01-01''), Text (end_date today q)];
          (whereClauses, params) =
            (if truthy (userId q)
             then (whereClauses @ [User_id_eq (length params + 1)],
                   params @ [Number (parseInt (or_default (userId q) []))])
             else (whereClauses, params));
          (whereClauses, params) =
            (if truthy (groupId q)
             then (whereClauses @ [Group_id_eq (length params + 1)],
                   params @ [Number (parseInt (or_default (groupId q) []))])
             else (whereClauses, params))
      in (whereClauses, params))"

text \<open>Binding \<open>$n\<close>: the driver sends every parameter as text, the database reads it as the
  type of the column it is compared with.  \<open>NaN\<close> is sent as \<open>'NaN'\<close>, which is no integer.
  The handlers compare dates with strings and identifiers with numbers only; the other two
  combinations are not built and are left as errors.\<close>

definition and_then :: "'e + 'a \<Rightarrow> ('a \<Rightarrow> 'e + 'b) \<Rightarrow> 'e + 'b" where
  "and_then r f = (case r of Inl e \<Rightarrow> Inl e | Inr x \<Rightarrow> f x)"

definition param_at :: "param list \<Rightarrow> nat \<Rightarrow> db_error + param" where
  "param_at ps n = (if 1 \<le> n \<and> n \<le> length ps then Inr (ps ! (n - 1)) else Inl Undefined_parameter)"

definition date_param :: "(string \<Rightarrow> date option) \<Rightarrow> param \<Rightarrow> db_error + date" where
  "date_param rd p =
     (case p of
        Text s \<Rightarrow> (case rd s of None \<Rightarrow> Inl Invalid_datetime_format | Some d \<Rightarrow> Inr d)
      | Number n \<Rightarrow> Inl Invalid_datetime_format)"

definition int_param :: "param \<Rightarrow> db_error + int" where
  "int_param p =
     (case p of
        Number (Some i) \<Rightarrow> Inr i
      | Number None \<Rightarrow> Inl Invalid_text_representation
      | Text s \<Rightarrow> Inl Invalid_text_representation)"

text \<open>A row of \<open>sales s JOIN users u [JOIN user_groups ug]\<close>; \<open>ug\<close> is \<open>None\<close> when the
  table is not joined.\<close>

type_synonym ts_from = "sales_row \<times> users_row \<times> user_groups_row option"

definition clause_on ::
  "(string \<Rightarrow> date option) \<Rightarrow> param list \<Rightarrow> bool \<Rightarrow> clause \<Rightarrow> db_error + (ts_from \<Rightarrow> bool)" where
  "clause_on rd ps joined c =
     (case c of
        Date_ge n \<Rightarrow>
          and_then (and_then (param_at ps n) (date_param rd))
            (\<lambda>d. Inr (\<lambda>(s, u, ug). d \<le> s_date s))
      | Date_le n \<Rightarrow>
          and_then (and_then (param_at ps n) (date_param rd))
            (\<lambda>d. Inr (\<lambda>(s, u, ug). s_date s \<le> d))
      | User_id_eq n \<Rightarrow>
          and_then (and_then (param_at ps n) int_param)
            (\<lambda>i. Inr (\<lambda>(s, u, ug). s_user_id s = i))
      | Group_id_eq n \<Rightarrow>
          if joined
          then and_then (and_then (param_at ps n) int_param)
                 (\<lambda>i. Inr (\<lambda>(s, u, ug). case ug of None \<Rightarrow> False | Some m \<Rightarrow> ug_group_id m = i))
          else Inl Undefined_table)"

record time_series_result =
  ts_period :: date
  ts_sale_count :: int
  ts_total_revenue :: "rat option"
  ts_avg_revenue :: "rat option"
  ts_active_users :: int

definition time_series_from :: "bool \<Rightarrow> database \<Rightarrow> ts_from list" where
  "time_series_from joined db =
     [(s, u, ug).
        s \<leftarrow> sales db,
        u \<leftarrow> users db, s_user_id s = u_id u,
        ug \<leftarrow> (if joined
               then map Some (filter (\<lambda>m. u_id u = ug_user_id m) (user_groups db))
               else [None])]"

definition time_series_select :: "date \<times> ts_from list \<Rightarrow> db_error + time_series_result" where
  "time_series_select g =
     (case g of (p, rows) \<Rightarrow>
        and_then (numeric_10_2 (sql_avg (map (\<lambda>(s, u, ug). Some (s_amount s)) rows)))
          (\<lambda>avg. Inr \<lparr>ts_period = p,
                      ts_sale_count = sql_count (map (\<lambda>(s, u, ug). Some (s_id s)) rows),
                      ts_total_revenue = sql_sum (map (\<lambda>(s, u, ug). Some (s_amount s)) rows),
                      ts_avg_revenue = avg,
                      ts_active_users =
                        sql_count_distinct (map (\<lambda>(s, u, ug). Some (s_user_id s)) rows)\<rparr>))"

text \<open>The rows of the \<open>FROM\<close> clause that pass \<open>WHERE whereClauses.join(' AND ')\<close>.\<close>

definition time_series_where ::
  "(string \<Rightarrow> date option) \<Rightarrow> bool \<Rightarrow> clause list \<Rightarrow> param list \<Rightarrow> database
     \<Rightarrow> db_error + ts_from list" where
  "time_series_where rd joined whereClauses params db =
     and_then (all_rows (map (clause_on rd params joined) whereClauses))
       (\<lambda>conds. Inr (filter (\<lambda>r. list_all (\<lambda>c. c r) conds) (time_series_from joined db)))"

definition time_series_query ::
  "(string \<Rightarrow> date option) \<Rightarrow> string \<Rightarrow> bool \<Rightarrow> clause list \<Rightarrow> param list \<Rightarrow> database
     \<Rightarrow> db_error + time_series_result list" where
  "time_series_query rd ti joined whereClauses params db =
     (case field_of ti of
        None \<Rightarrow> Inl Invalid_parameter_value
      | Some f \<Rightarrow>
          and_then (time_series_where rd joined whereClauses params db)
            (\<lambda>matched.
               and_then
                 (all_rows (map time_series_select
                    (group_by (\<lambda>(s, u, ug). date_trunc f (s_date s)) matched)))
                 (\<lambda>rs. Inr (sort_key ts_period rs))))"

text \<open>The response: \<open>res.json({ data: ... })\<close>, or status 500 from the \<open>catch\<close>.\<close>

datatype 'a response = Data "'a list" | Internal_server_error

text \<open>A property left out by the \<open>metric\<close> projection is \<open>None\<close>.\<close>

record time_series_data =
  tsd_period :: date
  tsd_totalRevenue :: "json option"
  tsd_averageRevenue :: "json option"
  tsd_saleCount :: "int option"
  tsd_activeUsers :: "int option"

definition time_series_row :: "string \<Rightarrow> time_series_result \<Rightarrow> time_series_data" where
  "time_series_row m row =
     \<lparr>tsd_period = ts_period row,
      tsd_totalRevenue =
        (if m = ''all'' \<or> m = ''totalRevenue''
         then Some (to_json (parseFloat (ts_total_revenue row))) else None),
      tsd_averageRevenue =
        (if m = ''all'' \<or> m = ''avgRevenue''
         then Some (to_json (parseFloat (ts_avg_revenue row))) else None),
      tsd_saleCount =
        (if m = ''all'' \<or> m = ''saleCount'' then Some (ts_sale_count row) else None),
      tsd_activeUsers = (if m = ''all'' then Some (ts_active_users row) else None)\<rparr>"

definition time_series_handler ::
  "(string \<Rightarrow> date option) \<Rightarrow> string \<Rightarrow> database \<Rightarrow> query \<Rightarrow> time_series_data response" where
  "time_series_handler rd today db q =
     (case time_series_query rd (timeInterval q) (truthy (groupId q))
             (fst (time_series_filter today q)) (snd (time_series_filter today q)) db of
        Inl err \<Rightarrow> Internal_server_error
      | Inr rows \<Rightarrow> Data (map (time_series_row (or_default (metric q) ''all'')) rows))"

subsection \<open>User performance: the query, the handler\<close>

text \<open>A row of \<open>users u LEFT JOIN sales s ON u.id = s.user_id AND s.date BETWEEN $1 AND $2
  LEFT JOIN user_groups ug ON u.id = ug.user_id LEFT JOIN groups g ON ug.group_id = g.id\<close>.\<close>

type_synonym users_from =
  "users_row \<times> sales_row option \<times> user_groups_row option \<times> groups_row option"

definition users_from :: "date \<Rightarrow> date \<Rightarrow> database \<Rightarrow> users_from list" where
  "users_from d1 d2 db =
     [(u, s, ug, g).
        u \<leftarrow> users db,
        s \<leftarrow> left_join (\<lambda>s. u_id u = s_user_id s \<and> d1 \<le> s_date s \<and> s_date s \<le> d2) (sales db),
        ug \<leftarrow> left_join (\<lambda>m. u_id u = ug_user_id m) (user_groups db),
        g \<leftarrow> (case ug of
               None \<Rightarrow> [None]
             | Some m \<Rightarrow> left_join (\<lambda>g. ug_group_id m = g_id g) (groups db))]"

record users_result =
  us_id :: int
  us_name :: string
  us_role :: string
  us_sale_count :: int
  us_total_revenue :: "rat option"
  us_avg_revenue :: "rat option"
  us_active_days :: int
  us_groups :: "string option list"

definition users_select :: "(int \<times> string \<times> string) \<times> users_from list \<Rightarrow> db_error + users_result" where
  "users_select grp =
     (case grp of ((i, n, r), rows) \<Rightarrow>
        and_then (numeric_10_2 (sql_avg (map (\<lambda>(u, s, ug, g). map_option s_amount s) rows)))
          (\<lambda>avg. Inr \<lparr>us_id = i, us_name = n, us_role = r,
                      us_sale_count = sql_count (map (\<lambda>(u, s, ug, g). map_option s_id s) rows),
                      us_total_revenue =
                        sql_sum (map (\<lambda>(u, s, ug, g). map_option s_amount s) rows),
                      us_avg_revenue = avg,
                      us_active_days =
                        sql_count_distinct
                          (map (\<lambda>(u, s, ug, g). map_option (\<lambda>s. date_trunc Day (s_date s)) s) rows),
                      us_groups = map (\<lambda>(u, s, ug, g). map_option g_name g) rows\<rparr>))"

text \<open>\<open>LIMIT $3\<close> is read as a \<open>bigint\<close> and must not be negative.\<close>

definition limit_param :: "param \<Rightarrow> db_error + nat" where
  "limit_param p =
     (case p of
        Number (Some i) \<Rightarrow>
          if i < 0 then Inl Invalid_row_count_in_limit_clause
          else if 9223372036854775807 < i then Inl Numeric_value_out_of_range
          else Inr (nat i)
      | Number None \<Rightarrow> Inl Invalid_text_representation
      | Text s \<Rightarrow> Inl Invalid_text_representation)"

definition users_query ::
  "(string \<Rightarrow> date option) \<Rightarrow> param list \<Rightarrow> database \<Rightarrow> db_error + users_result list" where
  "users_query rd params db =
     and_then (and_then (param_at params 1) (date_param rd)) (\<lambda>d1.
     and_then (and_then (param_at params 2) (date_param rd)) (\<lambda>d2.
     and_then (and_then (param_at params 3) limit_param) (\<lambda>n.
     and_then
       (all_rows (map users_select
          (group_by (\<lambda>(u, s, ug, g). (u_id u, u_name u, u_role u)) (users_from d1 d2 db))))
       (\<lambda>rs. Inr (take n (sort_key (\<lambda>r. desc_nulls_last (us_total_revenue r)) rs))))))"

record users_data =
  ud_userId :: int
  ud_name :: string
  ud_role :: string
  ud_saleCount :: int
  ud_totalRevenue :: json
  ud_averageRevenue :: json
  ud_activeDays :: int
  ud_groups :: "string list"

definition users_row :: "users_result \<Rightarrow> users_data" where
  "users_row row =
     \<lparr>ud_userId = us_id row,
      ud_name = us_name row,
      ud_role = us_role row,
      ud_saleCount = us_sale_count row,
      ud_totalRevenue = to_json (or_0 (parseFloat (us_total_revenue row))),
      ud_averageRevenue = to_json (or_0 (parseFloat (us_avg_revenue row))),
      ud_activeDays = us_active_days row,
      ud_groups = non_null (filter (\<lambda>g. g \<noteq> None) (us_groups row))\<rparr>"

text \<open>\<open>limit = 10\<close> by default; \<open>parseInt(10)\<close> is 10.\<close>

definition users_params :: "string \<Rightarrow> query \<Rightarrow> param list" where
  "users_params today q =
     [Text (or_default (startDate q) ''2021-01-01''), Text (end_date today q),
      Number (case limit q of None \<Rightarrow> Some 10 | Some l \<Rightarrow> parseInt l)]"

definition users_handler ::
  "(string \<Rightarrow> date option) \<Rightarrow> string \<Rightarrow> database \<Rightarrow> query \<Rightarrow> users_data response" where
  "users_handler rd today db q =
     (case users_query rd (users_params today q) db of
        Inl err \<Rightarrow> Internal_server_error
      | Inr rows \<Rightarrow> Data (map users_row rows))"

subsection \<open>Group performance: the query, the handler\<close>

text \<open>A row of \<open>groups g LEFT JOIN user_groups ug ON g.id = ug.group_id LEFT JOIN sales s
  ON ug.user_id = s.user_id AND s.date BETWEEN $1 AND $2\<close>.\<close>

type_synonym groups_from = "groups_row \<times> user_groups_row option \<times> sales_row option"

definition groups_from :: "date \<Rightarrow> date \<Rightarrow> database \<Rightarrow> groups_from list" where
  "groups_from d1 d2 db =
     [(g, ug, s).
        g \<leftarrow> groups db,
        ug \<leftarrow> left_join (\<lambda>m. g_id g = ug_group_id m) (user_groups db),
        s \<leftarrow> (case ug of
               None \<Rightarrow> [None]
             | Some m \<Rightarrow>
                 left_join (\<lambda>s. ug_user_id m = s_user_id s \<and> d1 \<le> s_date s \<and> s_date s \<le> d2)
                   (sales db))]"

record groups_result =
  gs_id :: int
  gs_name :: string
  gs_member_count :: int
  gs_sale_count :: int
  gs_total_revenue :: "rat option"
  gs_avg_revenue_per_sale :: "rat option"
  gs_avg_revenue_per_member :: "rat option"

definition groups_select :: "(int \<times> string) \<times> groups_from list \<Rightarrow> db_error + groups_result" where
  "groups_select grp =
     (case grp of ((i, n), rows) \<Rightarrow>
        and_then (numeric_10_2 (sql_avg (map (\<lambda>(g, ug, s). map_option s_amount s) rows)))
          (\<lambda>avg.
             and_then
               (sql_div (sql_sum (map (\<lambda>(g, ug, s). map_option s_amount s) rows))
                  (Some (of_int
                     (sql_count_distinct (map (\<lambda>(g, ug, s). map_option ug_user_id ug) rows)))))
               (\<lambda>per_member.
                  Inr \<lparr>gs_id = i, gs_name = n,
                       gs_member_count =
                         sql_count_distinct (map (\<lambda>(g, ug, s). map_option ug_user_id ug) rows),
                       gs_sale_count = sql_count (map (\<lambda>(g, ug, s). map_option s_id s) rows),
                       gs_total_revenue =
                         sql_sum (map (\<lambda>(g, ug, s). map_option s_amount s) rows),
                       gs_avg_revenue_per_sale = avg,
                       gs_avg_revenue_per_member = per_member\<rparr>)))"

definition groups_query ::
  "(string \<Rightarrow> date option) \<Rightarrow> param list \<Rightarrow> database \<Rightarrow> db_error + groups_result list" where
  "groups_query rd params db =
     and_then (and_then (param_at params 1) (date_param rd)) (\<lambda>d1.
     and_then (and_then (param_at params 2) (date_param rd)) (\<lambda>d2.
     and_then
       (all_rows (map groups_select
          (group_by (\<lambda>(g, ug, s). (g_id g, g_name g)) (groups_from d1 d2 db))))
       (\<lambda>rs. Inr (sort_key (\<lambda>r. desc_nulls_last (gs_total_revenue r)) rs))))"

record groups_data =
  gd_groupId :: int
  gd_name :: string
  gd_memberCount :: int
  gd_saleCount :: int
  gd_totalRevenue :: json
  gd_avgRevenuePerSale :: json
  gd_avgRevenuePerMember :: json

definition groups_row :: "groups_result \<Rightarrow> groups_data" where
  "groups_row row =
     \<lparr>gd_groupId = gs_id row,
      gd_name = gs_name row,
      gd_memberCount = gs_member_count row,
      gd_saleCount = gs_sale_count row,
      gd_totalRevenue = to_json (or_0 (parseFloat (gs_total_revenue row))),
      gd_avgRevenuePerSale = to_json (or_0 (parseFloat (gs_avg_revenue_per_sale row))),
      gd_avgRevenuePerMember = to_json (or_0 (parseFloat (gs_avg_revenue_per_member row)))\<rparr>"

definition date_params :: "string \<Rightarrow> query \<Rightarrow> param list" where
  "date_params today q =
     [Text (or_default (startDate q) ''2021-01-01''), Text (end_date today q)]"

definition groups_handler ::
  "(string \<Rightarrow> date option) \<Rightarrow> string \<Rightarrow> database \<Rightarrow> query \<Rightarrow> groups_data response" where
  "groups_handler rd today db q =
     (case groups_query rd (date_params today q) db of
        Inl err \<Rightarrow> Internal_server_error
      | Inr rows \<Rightarrow> Data (map groups_row rows))"

subsection \<open>Group performance: the rounding of the quotient and of the number\<close>

text \<open>\<open>floor_log b x\<close> is the integer \<open>e\<close> with \<open>b^e \<le> x < b^(e+1)\<close>, for \<open>x > 0\<close>;
  \<open>int_power b e\<close> is \<open>b^e\<close>.\<close>

definition floor_log :: "nat \<Rightarrow> rat \<Rightarrow> int" where
  "floor_log b x =
     (if 1 \<le> x then int (floorlog b (nat \<lfloor>x\<rfloor>)) - 1
      else - int (floorlog b (nat (\<lceil>1 / x\<rceil> - 1))))"

definition int_power :: "nat \<Rightarrow> int \<Rightarrow> rat" where
  "int_power b w = (if 0 \<le> w then of_nat b ^ nat w else 1 / of_nat b ^ nat (- w))"

text \<open>The quotient of two \<open>numeric\<close> values (\<open>numeric.c\<close>: \<open>select_div_scale\<close>, then
  \<open>div_var\<close> with rounding).  A \<open>numeric\<close> is held in digits of base 10000; \<open>weight\<close> is
  the position of its first digit that is not zero and \<open>first_digit\<close> that digit.  The
  result scale gives the quotient at least 16 significant digits and not fewer decimal
  places than the display scales \<open>dscale1\<close> and \<open>dscale2\<close> of the operands; the quotient is
  rounded to it, half away from zero.\<close>

definition weight :: "rat \<Rightarrow> int" where
  "weight x = (if x = 0 then 0 else floor_log 10000 \<bar>x\<bar>)"

definition first_digit :: "rat \<Rightarrow> int" where
  "first_digit x = (if x = 0 then 0 else \<lfloor>\<bar>x\<bar> / int_power 10000 (weight x)\<rfloor>)"

definition select_div_scale :: "int \<Rightarrow> int \<Rightarrow> rat \<Rightarrow> rat \<Rightarrow> int" where
  "select_div_scale dscale1 dscale2 var1 var2 =
     (let qweight = weight var1 - weight var2 - (if first_digit var1 \<le> first_digit var2 then 1 else 0);
          rscale = 16 - qweight * 4
      in min (max (max (max rscale dscale1) dscale2) 0) 1000)"

definition round_to_scale :: "int \<Rightarrow> rat \<Rightarrow> rat" where
  "round_to_scale rscale x =
     (if 0 \<le> x then of_int \<lfloor>x * int_power 10 rscale + 1 / 2\<rfloor> / int_power 10 rscale
      else - (of_int \<lfloor>- x * int_power 10 rscale + 1 / 2\<rfloor> / int_power 10 rscale))"

definition numeric_div :: "int \<Rightarrow> int \<Rightarrow> rat \<Rightarrow> rat \<Rightarrow> rat" where
  "numeric_div dscale1 dscale2 var1 var2 =
     round_to_scale (select_div_scale dscale1 dscale2 var1 var2) (var1 / var2)"

text \<open>The double nearest to a decimal, ties to even, as \<open>parseFloat\<close> reads the text of a
  \<open>numeric\<close>: 53 significant bits.  (Magnitudes outside the range of the normal doubles
  are left out.)\<close>

definition round_half_even :: "rat \<Rightarrow> int" where
  "round_half_even x =
     (let f = \<lfloor>x\<rfloor>; d = x - of_int f
      in if d < 1 / 2 then f else if 1 / 2 < d then f + 1 else if even f then f else f + 1)"

definition nearest_double :: "rat \<Rightarrow> rat" where
  "nearest_double x =
     (if x = 0 then 0
      else let ulp = int_power 2 (floor_log 2 \<bar>x\<bar> - 52)
           in sgn x * of_int (round_half_even (\<bar>x\<bar> / ulp)) * ulp)"

text \<open>The group report once more, with the two roundings as parameters: \<open>quot x y\<close> is the
  value the database gives \<open>x / y\<close> for a divisor that is not zero, \<open>num x\<close> the JavaScript
  number that \<open>parseFloat\<close> reads from \<open>x\<close>.  Everything else is as in \<open>groups_select\<close>,
  \<open>groups_query\<close>, \<open>groups_row\<close> and \<open>groups_handler\<close>, which are the instance of the exact
  quotient and the exact number.\<close>

definition sql_div_rounded ::
  "(rat \<Rightarrow> rat \<Rightarrow> rat) \<Rightarrow> rat option \<Rightarrow> rat option \<Rightarrow> db_error + rat option" where
  "sql_div_rounded quot a b =
     (case (a, b) of
        (Some x, Some y) \<Rightarrow> if y = 0 then Inl Division_by_zero else Inr (Some (quot x y))
      | _ \<Rightarrow> Inr None)"

definition parseFloat_rounded :: "(rat \<Rightarrow> rat) \<Rightarrow> rat option \<Rightarrow> jsnum" where
  "parseFloat_rounded num v = (case v of None \<Rightarrow> NaN | Some x \<Rightarrow> Num (num x))"

definition groups_select_rounded ::
  "(rat \<Rightarrow> rat \<Rightarrow> rat) \<Rightarrow> (int \<times> string) \<times> groups_from list \<Rightarrow> db_error + groups_result" where
  "groups_select_rounded quot grp =
     (case grp of ((i, n), rows) \<Rightarrow>
        and_then (numeric_10_2 (sql_avg (map (\<lambda>(g, ug, s). map_option s_amount s) rows)))
          (\<lambda>avg.
             and_then
               (sql_div_rounded quot (sql_sum (map (\<lambda>(g, ug, s). map_option s_amount s) rows))
                  (Some (of_int
                     (sql_count_distinct (map (\<lambda>(g, ug, s). map_option ug_user_id ug) rows)))))
               (\<lambda>per_member.
                  Inr \<lparr>gs_id = i, gs_name = n,
                       gs_member_count =
                         sql_count_distinct (map (\<lambda>(g, ug, s). map_option ug_user_id ug) rows),
                       gs_sale_count = sql_count (map (\<lambda>(g, ug, s). map_option s_id s) rows),
                       gs_total_revenue =
                         sql_sum (map (\<lambda>(g, ug, s). map_option s_amount s) rows),
                       gs_avg_revenue_per_sale = avg,
                       gs_avg_revenue_per_member = per_member\<rparr>)))"

definition groups_query_rounded ::
  "(rat \<Rightarrow> rat \<Rightarrow> rat) \<Rightarrow> (string \<Rightarrow> date option) \<Rightarrow> param list \<Rightarrow> database
     \<Rightarrow> db_error + groups_result list" where
  "groups_query_rounded quot rd params db =
     and_then (and_then (param_at params 1) (date_param rd)) (\<lambda>d1.
     and_then (and_then (param_at params 2) (date_param rd)) (\<lambda>d2.
     and_then
       (all_rows (map (groups_select_rounded quot)
          (group_by (\<lambda>(g, ug, s). (g_id g, g_name g)) (groups_from d1 d2 db))))
       (\<lambda>rs. Inr (sort_key (\<lambda>r. desc_nulls_last (gs_total_revenue r)) rs))))"

definition groups_row_rounded :: "(rat \<Rightarrow> rat) \<Rightarrow> groups_result \<Rightarrow> groups_data" where
  "groups_row_rounded num row =
     \<lparr>gd_groupId = gs_id row,
      gd_name = gs_name row,
      gd_memberCount = gs_member_count row,
      gd_saleCount = gs_sale_count row,
      gd_totalRevenue = to_json (or_0 (parseFloat_rounded num (gs_total_revenue row))),
      gd_avgRevenuePerSale =
        to_json (or_0 (parseFloat_rounded num (gs_avg_revenue_per_sale row))),
      gd_avgRevenuePerMember =
        to_json (or_0 (parseFloat_rounded num (gs_avg_revenue_per_member row)))\<rparr>"

definition groups_handler_rounded ::
  "(rat \<Rightarrow> rat \<Rightarrow> rat) \<Rightarrow> (rat \<Rightarrow> rat) \<Rightarrow> (string \<Rightarrow> date option) \<Rightarrow> string \<Rightarrow> database
     \<Rightarrow> query \<Rightarrow> groups_data response" where
  "groups_handler_rounded quot num rd today db q =
     (case groups_query_rounded quot rd (date_params today q) db of
        Inl err \<Rightarrow> Internal_server_error
      | Inr rows \<Rightarrow> Data (map (groups_row_rounded num) rows))"

subsection \<open>Trends: the query, the handler\<close>

text \<open>\<open>LAG(e) OVER (ORDER BY k)\<close>: the value of \<open>e\<close> in the row before, \<open>NULL\<close> in the
  first row.\<close>

definition lag :: "'a option list \<Rightarrow> 'a option list" where
  "lag col = take (length col) (None # col)"

record trends_stats =
  st_period :: date
  st_total_revenue :: "rat option"
  st_sale_count :: int
  st_prev_revenue :: "rat option"

definition stats :: "field \<Rightarrow> date \<Rightarrow> date \<Rightarrow> database \<Rightarrow> trends_stats list" where
  "stats f d1 d2 db =
     (let ordered =
            sort_key fst
              (map (\<lambda>(p, rows). (p, sql_sum (map (\<lambda>s. Some (s_amount s)) rows),
                                    sql_count (map (\<lambda>s. Some (s_id s)) rows)))
                 (group_by (\<lambda>s. date_trunc f (s_date s))
                    (filter (\<lambda>s. d1 \<le> s_date s \<and> s_date s \<le> d2) (sales db))))
      in map (\<lambda>((p, total, n), prev).
                \<lparr>st_period = p, st_total_revenue = total, st_sale_count = n,
                 st_prev_revenue = prev\<rparr>)
           (zip ordered (lag (map (\<lambda>(p, total, n). total) ordered))))"

record trends_result =
  tr_period :: date
  tr_total_revenue :: "rat option"
  tr_sale_count :: int
  tr_growth_percentage :: "rat option"

text \<open>\<open>CASE WHEN prev_revenue IS NOT NULL
  THEN ((total_revenue - prev_revenue) / prev_revenue * 100)::numeric(10,2) ELSE NULL END\<close>.\<close>

definition growth_percentage :: "rat option \<Rightarrow> rat option \<Rightarrow> db_error + rat option" where
  "growth_percentage total_revenue prev_revenue =
     (if prev_revenue \<noteq> None
      then and_then (sql_div (sql_minus total_revenue prev_revenue) prev_revenue)
             (\<lambda>r. numeric_10_2 (sql_times r (Some 100)))
      else Inr None)"

definition trends_select :: "trends_stats \<Rightarrow> db_error + trends_result" where
  "trends_select st =
     and_then (growth_percentage (st_total_revenue st) (st_prev_revenue st))
       (\<lambda>g. Inr \<lparr>tr_period = st_period st, tr_total_revenue = st_total_revenue st,
                 tr_sale_count = st_sale_count st, tr_growth_percentage = g\<rparr>)"

definition trends_query ::
  "(string \<Rightarrow> date option) \<Rightarrow> string \<Rightarrow> param list \<Rightarrow> database \<Rightarrow> db_error + trends_result list" where
  "trends_query rd ti params db =
     (case field_of ti of
        None \<Rightarrow> Inl Invalid_parameter_value
      | Some f \<Rightarrow>
          and_then (and_then (param_at params 1) (date_param rd)) (\<lambda>d1.
          and_then (and_then (param_at params 2) (date_param rd)) (\<lambda>d2.
          and_then (all_rows (map trends_select (stats f d1 d2 db)))
            (\<lambda>rs. Inr (sort_key tr_period rs)))))"

record trends_data =
  td_period :: date
  td_totalRevenue :: json
  td_saleCount :: int
  td_growthPercentage :: json

definition trends_row :: "trends_result \<Rightarrow> trends_data" where
  "trends_row row =
     \<lparr>td_period = tr_period row,
      td_totalRevenue = to_json (parseFloat (tr_total_revenue row)),
      td_saleCount = tr_sale_count row,
      td_growthPercentage =
        (if tr_growth_percentage row \<noteq> None
         then to_json (parseFloat (tr_growth_percentage row)) else JNull)\<rparr>"

definition trends_handler ::
  "(string \<Rightarrow> date option) \<Rightarrow> string \<Rightarrow> database \<Rightarrow> query \<Rightarrow> trends_data response" where
  "trends_handler rd today db q =
     (case trends_query rd (timeInterval q) (date_params today q) db of
        Inl err \<Rightarrow> Internal_server_error
      | Inr rows \<Rightarrow> Data (map trends_row rows))"

subsection \<open>Ranked order\<close>

text \<open>A column is in descending order with \<open>NULL\<close>s last when no value stands after a
  \<open>NULL\<close> or after a smaller value.\<close>

definition descending_nulls_last :: "rat option list \<Rightarrow> bool" where
  "descending_nulls_last col =
     sorted_wrt (\<lambda>v w. case w of None \<Rightarrow> True
                        | Some b \<Rightarrow> (case v of None \<Rightarrow> False | Some a \<Rightarrow> b \<le> a)) col"

text \<open>The number that \<open>parseFloat(total_revenue) || 0\<close> emits.\<close>

definition revenue_or_0 :: "rat option \<Rightarrow> rat" where
  "revenue_or_0 v = (case v of None \<Rightarrow> 0 | Some x \<Rightarrow> x)"

subsection \<open>Sample data\<close>

definition no_params :: query where
  "no_params = \<lparr>startDate = None, endDate = None, interval = None, userId = None,
                 groupId = None, metric = None, limit = None\<rparr>"

text \<open>Three agents, one of them without a sale; two groups, one of them without a member.\<close>

definition sample_db :: database where
  "sample_db =
     \<lparr>users = [\<lparr>u_id = 1, u_name = ''Ann'', u_role = ''Agent''\<rparr>,
               \<lparr>u_id = 2, u_name = ''Bob'', u_role = ''Agent''\<rparr>,
               \<lparr>u_id = 3, u_name = ''Cy'', u_role = ''Agent''\<rparr>],
      groups = [\<lparr>g_id = 1, g_name = ''North''\<rparr>, \<lparr>g_id = 2, g_name = ''Empty''\<rparr>],
      user_groups = [\<lparr>ug_user_id = 1, ug_group_id = 1\<rparr>],
      sales = [\<lparr>s_id = 1, s_user_id = 1, s_amount = 20000, s_date = (2021, 1, 5)\<rparr>,
               \<lparr>s_id = 2, s_user_id = 2, s_amount = 20813, s_date = (2021, 1, 20)\<rparr>,
               \<lparr>s_id = 3, s_user_id = 1, s_amount = 20000, s_date = (2021, 1, 25)\<rparr>,
               \<lparr>s_id = 4, s_user_id = 2, s_amount = 16562, s_date = (2021, 2, 3)\<rparr>]\<rparr>"

text \<open>A month whose only sale has amount 0, followed by a month with revenue.\<close>

definition zero_month_db :: database where
  "zero_month_db =
     \<lparr>users = [\<lparr>u_id = 1, u_name = ''Ann'', u_role = ''Agent''\<rparr>],
      groups = [],
      user_groups = [],
      sales = [\<lparr>s_id = 1, s_user_id = 1, s_amount = 0, s_date = (2021, 1, 5)\<rparr>,
               \<lparr>s_id = 2, s_user_id = 1, s_amount = 500, s_date = (2021, 2, 10)\<rparr>]\<rparr>"

text \<open>A group of three members with one sale of 40000, and a group without a member.\<close>

definition three_member_db :: database where
  "three_member_db =
     \<lparr>users = [\<lparr>u_id = 1, u_name = ''Ann'', u_role = ''Agent''\<rparr>,
               \<lparr>u_id = 2, u_name = ''Bob'', u_role = ''Agent''\<rparr>,
               \<lparr>u_id = 3, u_name = ''Cy'', u_role = ''Agent''\<rparr>],
      groups = [\<lparr>g_id = 1, g_name = ''North''\<rparr>, \<lparr>g_id = 2, g_name = ''Empty''\<rparr>],
      user_groups = [\<lparr>ug_user_id = 1, ug_group_id = 1\<rparr>, \<lparr>ug_user_id = 2, ug_group_id = 1\<rparr>,
                     \<lparr>ug_user_id = 3, ug_group_id = 1\<rparr>],
      sales = [\<lparr>s_id = 1, s_user_id = 1, s_amount = 40000, s_date = (2021, 1, 5)\<rparr>]\<rparr>"

section \<open>Properties\<close>

subsection \<open>Errors, groups\<close>

lemma and_then_Inr_iff: "and_then r f = Inr y \<longleftrightarrow> (\<exists>x. r = Inr x \<and> f x = Inr y)"
  by (cases r) (simp_all add: and_then_def)

lemma and_then_simps: "and_then (Inl e) f = Inl e" "and_then (Inr x) f = f x"
  by (simp_all add: and_then_def)

lemma all_rows_Inr: "all_rows xs = Inr ys \<Longrightarrow> xs = map Inr ys"
  by (induction xs arbitrary: ys) (auto split: sum.splits)

lemma all_rows_Inl: "Inl e \<in> set xs \<Longrightarrow> \<exists>e'. all_rows xs = Inl e'"
  by (induction xs) (auto split: sum.splits)

lemma group_by_member:
  "(k, rs) \<in> set (group_by key rows) \<Longrightarrow>
     rs = filter (\<lambda>r. key r = k) rows \<and> rs \<noteq> [] \<and> (\<exists>r \<in> set rows. key r = k)"
  by (auto simp: group_by_def filter_empty_conv)

lemma length_group_by: "length (group_by key rows) = card (key ` set rows)"
  by (simp add: group_by_def length_remdups_card_conv)

subsection \<open>The interval\<close>

lemma field_of_timeInterval: "\<exists>f. field_of (timeInterval q) = Some f"
  by (auto simp: timeInterval_def validIntervals_def field_of_def Let_def)

lemma timeInterval_invalid:
  "x \<notin> set validIntervals \<Longrightarrow> timeInterval (q\<lparr>interval := Some x\<rparr>) = ''month''"
  by (simp add: timeInterval_def or_default_def Let_def)

lemma timeInterval_absent: "timeInterval (q\<lparr>interval := None\<rparr>) = ''month''"
  by (simp add: timeInterval_def or_default_def Let_def)

lemma timeInterval_month: "timeInterval (q\<lparr>interval := Some ''month''\<rparr>) = ''month''"
  by (simp add: timeInterval_def or_default_def Let_def)

lemma time_series_filter_interval:
  "time_series_filter today (q\<lparr>interval := v\<rparr>) = time_series_filter today q"
  by (simp add: time_series_filter_def end_date_def Let_def)

lemma time_series_handler_interval:
  "timeInterval q = timeInterval q' \<Longrightarrow> q' = q\<lparr>interval := v\<rparr> \<Longrightarrow>
   time_series_handler rd today db q = time_series_handler rd today db q'"
  by (simp add: time_series_handler_def time_series_filter_interval split: sum.split)

lemma trends_handler_interval:
  "timeInterval q = timeInterval q' \<Longrightarrow> q' = q\<lparr>interval := v\<rparr> \<Longrightarrow>
   trends_handler rd today db q = trends_handler rd today db q'"
  by (simp add: trends_handler_def date_params_def end_date_def split: sum.split)

text \<open>
  Claim C9.  In the time-series and the trend report, an \<open>interval\<close> outside
  \<open>day\<close>, \<open>week\<close>, \<open>month\<close>, \<open>quarter\<close>, \<open>year\<close>, and an absent one, is taken as
  \<open>month\<close>: \<open>timeInterval\<close> is \<open>'month'\<close>, a field that \<open>DATE_TRUNC\<close> knows, and the
  response is the response of the same request with \<open>interval=month\<close>; the interval adds
  no error of its own.
\<close>

theorem invalid_interval_coerced_to_month:
  assumes "x \<notin> set validIntervals"
  shows "timeInterval (q\<lparr>interval := Some x\<rparr>) = ''month'' \<and>
         timeInterval (q\<lparr>interval := None\<rparr>) = ''month'' \<and>
         field_of ''month'' = Some Month \<and>
         time_series_handler rd today db (q\<lparr>interval := Some x\<rparr>) =
           time_series_handler rd today db (q\<lparr>interval := Some ''month''\<rparr>) \<and>
         time_series_handler rd today db (q\<lparr>interval := None\<rparr>) =
           time_series_handler rd today db (q\<lparr>interval := Some ''month''\<rparr>) \<and>
         trends_handler rd today db (q\<lparr>interval := Some x\<rparr>) =
           trends_handler rd today db (q\<lparr>interval := Some ''month''\<rparr>) \<and>
         trends_handler rd today db (q\<lparr>interval := None\<rparr>) =
           trends_handler rd today db (q\<lparr>interval := Some ''month''\<rparr>)"
proof -
  have a: "timeInterval (q\<lparr>interval := Some x\<rparr>) = ''month''"
    using assms by (rule timeInterval_invalid)
  have b: "timeInterval (q\<lparr>interval := None\<rparr>) = ''month''"
    by (rule timeInterval_absent)
  have c: "timeInterval (q\<lparr>interval := Some ''month''\<rparr>) = ''month''"
    by (rule timeInterval_month)
  have d: "field_of ''month'' = Some Month"
    by (simp add: field_of_def)
  have e: "time_series_handler rd today db (q\<lparr>interval := Some x\<rparr>) =
           time_series_handler rd today db (q\<lparr>interval := Some ''month''\<rparr>)"
    by (rule time_series_handler_interval[where v = "Some ''month''"]) (simp_all add: a c)
  have f: "time_series_handler rd today db (q\<lparr>interval := None\<rparr>) =
           time_series_handler rd today db (q\<lparr>interval := Some ''month''\<rparr>)"
    by (rule time_series_handler_interval[where v = "Some ''month''"]) (simp_all add: b c)
  have g: "trends_handler rd today db (q\<lparr>interval := Some x\<rparr>) =
           trends_handler rd today db (q\<lparr>interval := Some ''month''\<rparr>)"
    by (rule trends_handler_interval[where v = "Some ''month''"]) (simp_all add: a c)
  have h: "trends_handler rd today db (q\<lparr>interval := None\<rparr>) =
           trends_handler rd today db (q\<lparr>interval := Some ''month''\<rparr>)"
    by (rule trends_handler_interval[where v = "Some ''month''"]) (simp_all add: b c)
  from a b d e f g h show ?thesis by simp
qed

theorem invalid_interval_coerced_to_month_witness:
  "''fortnight'' \<notin> set validIntervals \<and>
   timeInterval (no_params\<lparr>interval := Some ''fortnight''\<rparr>) = ''month'' \<and>
   time_series_handler iso_date ''2021-12-31'' sample_db (no_params\<lparr>interval := Some ''fortnight''\<rparr>) =
     time_series_handler iso_date ''2021-12-31'' sample_db (no_params\<lparr>interval := Some ''month''\<rparr>) \<and>
   trends_handler iso_date ''2021-12-31'' sample_db (no_params\<lparr>interval := Some ''fortnight''\<rparr>) =
     trends_handler iso_date ''2021-12-31'' sample_db (no_params\<lparr>interval := Some ''month''\<rparr>)"
proof -
  have h: "''fortnight'' \<notin> set validIntervals"
    by (simp add: validIntervals_def)
  show ?thesis
    using h invalid_interval_coerced_to_month[OF h, of no_params iso_date "''2021-12-31''" sample_db]
    by simp
qed

subsection \<open>Dates\<close>

lemma prev_day_le: "prev_day d \<le> d"
  by (cases d) (auto simp: prev_day_def)

lemma prev_days_le: "(prev_day ^^ n) d \<le> d"
proof (induction n)
  case 0
  show ?case by simp
next
  case (Suc n)
  have "(prev_day ^^ Suc n) d = prev_day ((prev_day ^^ n) d)" by simp
  also have "\<dots> \<le> (prev_day ^^ n) d" by (rule prev_day_le)
  also have "\<dots> \<le> d" by (rule Suc.IH)
  finally show ?case .
qed

lemma date_trunc_le: "valid_date d \<Longrightarrow> date_trunc f d \<le> d"
proof (cases d)
  case (fields y m dd)
  assume v: "valid_date d"
  show ?thesis
  proof (cases f)
    case Week
    have "date_trunc Week d = (prev_day ^^ days_since_monday d) d"
      by (simp add: date_trunc_def fields)
    then show ?thesis using prev_days_le[of "days_since_monday d" d] Week by simp
  next
    case Quarter
    have "3 * ((m - 1) div 3) + 1 \<le> m" by presburger
    then show ?thesis using v Quarter fields
      by (auto simp: date_trunc_def valid_date_def)
  qed (use v fields in \<open>auto simp: date_trunc_def valid_date_def\<close>)
qed

subsection \<open>Columns\<close>

lemma non_null_Nil_iff: "non_null col = [] \<longleftrightarrow> (\<forall>v \<in> set col. v = None)"
  by (induction col) (auto simp: non_null_def split: option.splits)

lemma set_non_null: "set (non_null col) = {x. Some x \<in> set col}"
  by (induction col) (auto simp: non_null_def split: option.splits)

subsection \<open>Rows of the time-series query\<close>

lemma time_series_filter_shape:
  "\<exists>cs ps. time_series_filter today q =
     (Date_ge 1 # Date_le 2 # cs,
      Text (or_default (startDate q) ''2021-01-01'') # Text (end_date today q) # ps)"
  by (simp add: time_series_filter_def Let_def)

lemma time_series_from_sales:
  "(s, u, ug) \<in> set (time_series_from joined db) \<Longrightarrow> s \<in> set (sales db)"
  by (auto simp: time_series_from_def)

lemma time_series_where_dates:
  assumes "time_series_where rd joined (Date_ge 1 # Date_le 2 # cs) (Text a # Text b # ps) db = Inr matched"
  shows "\<exists>d1 d2. rd a = Some d1 \<and> rd b = Some d2 \<and>
           (\<forall>(s, u, ug) \<in> set matched. s \<in> set (sales db) \<and> d1 \<le> s_date s \<and> s_date s \<le> d2)"
proof -
  from assms obtain conds where
    c: "all_rows (map (clause_on rd (Text a # Text b # ps) joined) (Date_ge 1 # Date_le 2 # cs)) = Inr conds"
    and m: "matched = filter (\<lambda>r. list_all (\<lambda>c. c r) conds) (time_series_from joined db)"
    by (auto simp: time_series_where_def and_then_Inr_iff)
  from all_rows_Inr[OF c] obtain c1 c2 cs' where
    conds: "conds = c1 # c2 # cs'"
    and c1: "clause_on rd (Text a # Text b # ps) joined (Date_ge 1) = Inr c1"
    and c2: "clause_on rd (Text a # Text b # ps) joined (Date_le 2) = Inr c2"
    by (cases conds; cases "tl conds") auto
  from c1 obtain d1 where d1: "rd a = Some d1" and c1': "c1 = (\<lambda>(s, u, ug). d1 \<le> s_date s)"
    by (auto simp: clause_on_def and_then_Inr_iff param_at_def date_param_def split: option.splits)
  from c2 obtain d2 where d2: "rd b = Some d2" and c2': "c2 = (\<lambda>(s, u, ug). s_date s \<le> d2)"
    by (auto simp: clause_on_def and_then_Inr_iff param_at_def date_param_def split: option.splits)
  have "\<forall>(s, u, ug) \<in> set matched. s \<in> set (sales db) \<and> d1 \<le> s_date s \<and> s_date s \<le> d2"
    using m conds c1' c2' by (auto dest: time_series_from_sales)
  with d1 d2 show ?thesis by blast
qed

lemma time_series_query_row:
  assumes "time_series_query rd ti joined cs ps db = Inr rs" and "r \<in> set rs"
  shows "\<exists>f matched g. field_of ti = Some f \<and> time_series_where rd joined cs ps db = Inr matched \<and>
           g \<noteq> [] \<and> set g \<subseteq> set matched \<and>
           (\<forall>(s, u, ug) \<in> set g. date_trunc f (s_date s) = ts_period r) \<and>
           time_series_select (ts_period r, g) = Inr r"
proof -
  from assms(1) obtain f matched sel where
    f: "field_of ti = Some f"
    and w: "time_series_where rd joined cs ps db = Inr matched"
    and sel: "all_rows (map time_series_select
                (group_by (\<lambda>(s, u, ug). date_trunc f (s_date s)) matched)) = Inr sel"
    and rs: "rs = sort_key ts_period sel"
    by (auto simp: time_series_query_def and_then_Inr_iff split: option.splits)
  from assms(2) rs have "r \<in> set sel" by simp
  then have "Inr r \<in> set (map time_series_select
                (group_by (\<lambda>(s, u, ug). date_trunc f (s_date s)) matched))"
    using all_rows_Inr[OF sel] by simp
  then obtain p g where
    pg: "(p, g) \<in> set (group_by (\<lambda>(s, u, ug). date_trunc f (s_date s)) matched)"
    and r: "time_series_select (p, g) = Inr r"
    by auto
  from r have p: "ts_period r = p"
    by (auto simp: time_series_select_def and_then_Inr_iff)
  from group_by_member[OF pg] have
    "g \<noteq> []" "set g \<subseteq> set matched" "\<forall>(s, u, ug) \<in> set g. date_trunc f (s_date s) = p"
    by auto
  with f w r p show ?thesis by blast
qed

lemma time_series_select_counts:
  assumes "time_series_select (p, g) = Inr r" and "g \<noteq> []"
  shows "1 \<le> ts_sale_count r \<and> ts_total_revenue r \<noteq> None"
proof -
  have "non_null (map (\<lambda>(s, u, ug). Some (s_id s)) g) \<noteq> []"
    using assms(2) by (cases g) (auto simp: non_null_Nil_iff)
  moreover have "non_null (map (\<lambda>(s, u, ug). Some (s_amount s)) g) \<noteq> []"
    using assms(2) by (cases g) (auto simp: non_null_Nil_iff)
  ultimately show ?thesis
    using assms(1)
    by (cases "non_null (map (\<lambda>(s, u, ug). Some (s_id s)) g)")
       (auto simp: time_series_select_def and_then_Inr_iff sql_count_def sql_sum_def)
qed

lemma time_series_handler_Data:
  assumes "time_series_handler rd today db q = Data rows"
  shows "\<exists>rs. time_series_query rd (timeInterval q) (truthy (groupId q))
                (fst (time_series_filter today q)) (snd (time_series_filter today q)) db = Inr rs \<and>
              rows = map (time_series_row (or_default (metric q) ''all'')) rs"
  using assms by (auto simp: time_series_handler_def split: sum.splits)

lemma trends_query_row:
  assumes "trends_query rd ti [Text a, Text b] db = Inr rs" and "r \<in> set rs"
  shows "\<exists>f d1 d2 s. field_of ti = Some f \<and> rd a = Some d1 \<and> rd b = Some d2 \<and>
           s \<in> set (sales db) \<and> d1 \<le> s_date s \<and> s_date s \<le> d2 \<and>
           tr_period r = date_trunc f (s_date s)"
proof -
  from assms(1) obtain f d1 d2 sel where
    f: "field_of ti = Some f"
    and d1: "rd a = Some d1" and d2: "rd b = Some d2"
    and sel: "all_rows (map trends_select (stats f d1 d2 db)) = Inr sel"
    and rs: "rs = sort_key tr_period sel"
    by (auto simp: trends_query_def and_then_Inr_iff param_at_def date_param_def
             split: option.splits)
  from assms(2) rs have "Inr r \<in> set (map trends_select (stats f d1 d2 db))"
    using all_rows_Inr[OF sel] by simp
  then obtain st where st: "st \<in> set (stats f d1 d2 db)" and r: "trends_select st = Inr r"
    by auto
  from r have p: "tr_period r = st_period st"
    by (auto simp: trends_select_def and_then_Inr_iff)
  from st obtain g where
    "(st_period st, g) \<in> set (group_by (\<lambda>s. date_trunc f (s_date s))
        (filter (\<lambda>s. d1 \<le> s_date s \<and> s_date s \<le> d2) (sales db)))"
    by (fastforce simp: stats_def Let_def dest!: set_zip_leftD)
  from group_by_member[OF this] obtain s where
    "s \<in> set (sales db)" "d1 \<le> s_date s" "s_date s \<le> d2" "date_trunc f (s_date s) = st_period st"
    by auto
  with f d1 d2 p show ?thesis by auto
qed

lemma trends_handler_Data:
  assumes "trends_handler rd today db q = Data rows"
  shows "\<exists>rs. trends_query rd (timeInterval q)
                [Text (or_default (startDate q) ''2021-01-01''), Text (end_date today q)] db = Inr rs \<and>
              rows = map trends_row rs"
  using assms by (auto simp: trends_handler_def date_params_def split: sum.splits)

lemma time_series_period_sale:
  assumes "time_series_handler rd today db q = Data rows" and "row \<in> set rows"
  shows "\<exists>f d1 d2 s. field_of (timeInterval q) = Some f \<and>
           rd (or_default (startDate q) ''2021-01-01'') = Some d1 \<and>
           rd (end_date today q) = Some d2 \<and>
           s \<in> set (sales db) \<and> d1 \<le> s_date s \<and> s_date s \<le> d2 \<and>
           tsd_period row = date_trunc f (s_date s)"
proof -
  from time_series_handler_Data[OF assms(1)] assms(2) obtain rs r where
    rs: "time_series_query rd (timeInterval q) (truthy (groupId q))
           (fst (time_series_filter today q)) (snd (time_series_filter today q)) db = Inr rs"
    and r: "r \<in> set rs"
    and row: "row = time_series_row (or_default (metric q) ''all'') r"
    by auto
  from time_series_query_row[OF rs r] obtain f matched g where
    f: "field_of (timeInterval q) = Some f"
    and w: "time_series_where rd (truthy (groupId q)) (fst (time_series_filter today q))
              (snd (time_series_filter today q)) db = Inr matched"
    and g: "g \<noteq> []" "set g \<subseteq> set matched"
           "\<forall>(s, u, ug) \<in> set g. date_trunc f (s_date s) = ts_period r"
    by blast
  from time_series_filter_shape[of today q] obtain cs ps where
    "time_series_filter today q =
       (Date_ge 1 # Date_le 2 # cs,
        Text (or_default (startDate q) ''2021-01-01'') # Text (end_date today q) # ps)"
    by blast
  with w have "time_series_where rd (truthy (groupId q)) (Date_ge 1 # Date_le 2 # cs)
       (Text (or_default (startDate q) ''2021-01-01'') # Text (end_date today q) # ps) db = Inr matched"
    by simp
  from time_series_where_dates[OF this] obtain d1 d2 where
    d: "rd (or_default (startDate q) ''2021-01-01'') = Some d1" "rd (end_date today q) = Some d2"
    and m: "\<forall>(s, u, ug) \<in> set matched. s \<in> set (sales db) \<and> d1 \<le> s_date s \<and> s_date s \<le> d2"
    by blast
  from g obtain s u ug where
    "(s, u, ug) \<in> set matched" "date_trunc f (s_date s) = ts_period r"
    by (cases g) auto
  with m row have "s \<in> set (sales db)" "d1 \<le> s_date s" "s_date s \<le> d2"
    "tsd_period row = date_trunc f (s_date s)"
    by (auto simp: time_series_row_def)
  with f d show ?thesis by blast
qed

lemma trends_period_sale:
  assumes "trends_handler rd today db q = Data rows" and "row \<in> set rows"
  shows "\<exists>f d1 d2 s. field_of (timeInterval q) = Some f \<and>
           rd (or_default (startDate q) ''2021-01-01'') = Some d1 \<and>
           rd (end_date today q) = Some d2 \<and>
           s \<in> set (sales db) \<and> d1 \<le> s_date s \<and> s_date s \<le> d2 \<and>
           td_period row = date_trunc f (s_date s)"
proof -
  from trends_handler_Data[OF assms(1)] assms(2) obtain rs r where
    rs: "trends_query rd (timeInterval q)
           [Text (or_default (startDate q) ''2021-01-01''), Text (end_date today q)] db = Inr rs"
    and r: "r \<in> set rs" and row: "row = trends_row r"
    by auto
  from trends_query_row[OF rs r] row show ?thesis
    by (simp add: trends_row_def)
qed

lemma sample_time_series:
  "time_series_handler iso_date ''2021-12-31'' sample_db no_params =
     Data [\<lparr>tsd_period = (2021, 1, 1), tsd_totalRevenue = Some (JNum 60813),
            tsd_averageRevenue = Some (JNum 20271), tsd_saleCount = Some 3,
            tsd_activeUsers = Some 2\<rparr>,
           \<lparr>tsd_period = (2021, 2, 1), tsd_totalRevenue = Some (JNum 16562),
            tsd_averageRevenue = Some (JNum 16562), tsd_saleCount = Some 1,
            tsd_activeUsers = Some 1\<rparr>]"
  by code_simp

text \<open>
  Claim C10.  Every row of the time-series report stands for a bucket that holds a row of
  the filtered join (buckets without a matching sale are not emitted): its period is the
  truncated date of a sale that passed \<open>WHERE\<close>, its \<open>saleCount\<close>, where the \<open>metric\<close>
  projection emits it, is at least 1, and its \<open>totalRevenue\<close>, where emitted, is a number
  and not \<open>null\<close>.  With \<open>metric\<close> absent or \<open>all\<close> both are emitted.
\<close>

theorem time_series_rows_have_sales:
  assumes "time_series_handler rd today db q = Data rows" and "row \<in> set rows"
  shows "(\<exists>f matched.
            field_of (timeInterval q) = Some f \<and>
            time_series_where rd (truthy (groupId q)) (fst (time_series_filter today q))
              (snd (time_series_filter today q)) db = Inr matched \<and>
            (\<exists>(s, u, ug) \<in> set matched. tsd_period row = date_trunc f (s_date s))) \<and>
         (or_default (metric q) ''all'' \<in> {''all'', ''saleCount''} \<longrightarrow>
            (\<exists>n. tsd_saleCount row = Some n \<and> 1 \<le> n)) \<and>
         (or_default (metric q) ''all'' \<in> {''all'', ''totalRevenue''} \<longrightarrow>
            (\<exists>v. tsd_totalRevenue row = Some (JNum v))) \<and>
         (\<forall>n. tsd_saleCount row = Some n \<longrightarrow> 1 \<le> n) \<and>
         tsd_totalRevenue row \<noteq> Some JNull"
proof -
  from time_series_handler_Data[OF assms(1)] assms(2) obtain rs r where
    rs: "time_series_query rd (timeInterval q) (truthy (groupId q))
           (fst (time_series_filter today q)) (snd (time_series_filter today q)) db = Inr rs"
    and r: "r \<in> set rs"
    and row: "row = time_series_row (or_default (metric q) ''all'') r"
    by auto
  from time_series_query_row[OF rs r] obtain f matched g where
    f: "field_of (timeInterval q) = Some f"
    and w: "time_series_where rd (truthy (groupId q)) (fst (time_series_filter today q))
              (snd (time_series_filter today q)) db = Inr matched"
    and g: "g \<noteq> []" "set g \<subseteq> set matched"
           "\<forall>(s, u, ug) \<in> set g. date_trunc f (s_date s) = ts_period r"
    and sel: "time_series_select (ts_period r, g) = Inr r"
    by blast
  from g obtain s u ug where "(s, u, ug) \<in> set matched" "date_trunc f (s_date s) = ts_period r"
    by (cases g) auto
  then have a: "\<exists>(s, u, ug) \<in> set matched. tsd_period row = date_trunc f (s_date s)"
    using row by (force simp: time_series_row_def)
  from time_series_select_counts[OF sel g(1)] obtain v where
    c: "1 \<le> ts_sale_count r" and v: "ts_total_revenue r = Some v"
    by auto
  from c v row have
    "or_default (metric q) ''all'' \<in> {''all'', ''saleCount''} \<longrightarrow>
       (\<exists>n. tsd_saleCount row = Some n \<and> 1 \<le> n)"
    "or_default (metric q) ''all'' \<in> {''all'', ''totalRevenue''} \<longrightarrow>
       (\<exists>v. tsd_totalRevenue row = Some (JNum v))"
    "\<forall>n. tsd_saleCount row = Some n \<longrightarrow> 1 \<le> n"
    "tsd_totalRevenue row \<noteq> Some JNull"
    by (auto simp: time_series_row_def parseFloat_def to_json_def)
  with f w a show ?thesis by blast
qed

theorem time_series_rows_have_sales_witness:
  "time_series_handler iso_date ''2021-12-31'' sample_db no_params =
     Data [\<lparr>tsd_period = (2021, 1, 1), tsd_totalRevenue = Some (JNum 60813),
            tsd_averageRevenue = Some (JNum 20271), tsd_saleCount = Some 3,
            tsd_activeUsers = Some 2\<rparr>,
           \<lparr>tsd_period = (2021, 2, 1), tsd_totalRevenue = Some (JNum 16562),
            tsd_averageRevenue = Some (JNum 16562), tsd_saleCount = Some 1,
            tsd_activeUsers = Some 1\<rparr>] \<and>
   (\<exists>f matched.
      field_of (timeInterval no_params) = Some f \<and>
      time_series_where iso_date (truthy (groupId no_params))
        (fst (time_series_filter ''2021-12-31'' no_params))
        (snd (time_series_filter ''2021-12-31'' no_params)) sample_db = Inr matched \<and>
      (\<exists>(s, u, ug) \<in> set matched. (2021, 2, 1) = date_trunc f (s_date s)))"
proof -
  let ?r2 = "\<lparr>tsd_period = (2021, 2, 1), tsd_totalRevenue = Some (JNum 16562),
            tsd_averageRevenue = Some (JNum 16562), tsd_saleCount = Some 1,
            tsd_activeUsers = Some 1\<rparr>"
  note h = sample_time_series
  have m: "?r2 \<in> set [\<lparr>tsd_period = (2021, 1, 1), tsd_totalRevenue = Some (JNum 60813),
            tsd_averageRevenue = Some (JNum 20271), tsd_saleCount = Some 3,
            tsd_activeUsers = Some 2\<rparr>, ?r2]"
    by simp
  from time_series_rows_have_sales[OF h m] h show ?thesis by simp
qed

text \<open>
  Claim C6, as amended.  Let every sale carry a valid calendar date.  Then the period of
  every row of the time-series report and of the trend report is \<open>DATE_TRUNC\<close> of the date
  of a sale that lies within the inclusive interval from \<open>startDate\<close> to \<open>endDate\<close>; the
  period is not after that sale's date, hence not after \<open>endDate\<close>.  (It may lie before
  \<open>startDate\<close>: the bucket that holds \<open>startDate\<close> starts earlier.)
\<close>

theorem bucket_period_truncates_sale_in_range:
  assumes "\<forall>s \<in> set (sales db). valid_date (s_date s)"
  shows "(time_series_handler rd today db q = Data rows \<and> row \<in> set rows \<longrightarrow>
            (\<exists>f d1 d2 s. field_of (timeInterval q) = Some f \<and>
               rd (or_default (startDate q) ''2021-01-01'') = Some d1 \<and>
               rd (end_date today q) = Some d2 \<and>
               s \<in> set (sales db) \<and> d1 \<le> s_date s \<and> s_date s \<le> d2 \<and>
               tsd_period row = date_trunc f (s_date s) \<and>
               tsd_period row \<le> s_date s \<and> tsd_period row \<le> d2)) \<and>
         (trends_handler rd today db q = Data trows \<and> trow \<in> set trows \<longrightarrow>
            (\<exists>f d1 d2 s. field_of (timeInterval q) = Some f \<and>
               rd (or_default (startDate q) ''2021-01-01'') = Some d1 \<and>
               rd (end_date today q) = Some d2 \<and>
               s \<in> set (sales db) \<and> d1 \<le> s_date s \<and> s_date s \<le> d2 \<and>
               td_period trow = date_trunc f (s_date s) \<and>
               td_period trow \<le> s_date s \<and> td_period trow \<le> d2))"
proof (intro conjI impI; elim conjE)
  assume "time_series_handler rd today db q = Data rows" and "row \<in> set rows"
  from time_series_period_sale[OF this] obtain f d1 d2 s where
    a: "field_of (timeInterval q) = Some f"
       "rd (or_default (startDate q) ''2021-01-01'') = Some d1"
       "rd (end_date today q) = Some d2"
       "s \<in> set (sales db)" "d1 \<le> s_date s" "s_date s \<le> d2"
       "tsd_period row = date_trunc f (s_date s)"
    by blast
  from a(4) assms have "valid_date (s_date s)" by blast
  from date_trunc_le[OF this, of f] a(7) have le: "tsd_period row \<le> s_date s" by simp
  from le a(6) have "tsd_period row \<le> d2" by (rule order_trans)
  with a le show "\<exists>f d1 d2 s. field_of (timeInterval q) = Some f \<and>
               rd (or_default (startDate q) ''2021-01-01'') = Some d1 \<and>
               rd (end_date today q) = Some d2 \<and>
               s \<in> set (sales db) \<and> d1 \<le> s_date s \<and> s_date s \<le> d2 \<and>
               tsd_period row = date_trunc f (s_date s) \<and>
               tsd_period row \<le> s_date s \<and> tsd_period row \<le> d2"
    by blast
next
  assume "trends_handler rd today db q = Data trows" and "trow \<in> set trows"
  from trends_period_sale[OF this] obtain f d1 d2 s where
    a: "field_of (timeInterval q) = Some f"
       "rd (or_default (startDate q) ''2021-01-01'') = Some d1"
       "rd (end_date today q) = Some d2"
       "s \<in> set (sales db)" "d1 \<le> s_date s" "s_date s \<le> d2"
       "td_period trow = date_trunc f (s_date s)"
    by blast
  from a(4) assms have "valid_date (s_date s)" by blast
  from date_trunc_le[OF this, of f] a(7) have le: "td_period trow \<le> s_date s" by simp
  from le a(6) have "td_period trow \<le> d2" by (rule order_trans)
  with a le show "\<exists>f d1 d2 s. field_of (timeInterval q) = Some f \<and>
               rd (or_default (startDate q) ''2021-01-01'') = Some d1 \<and>
               rd (end_date today q) = Some d2 \<and>
               s \<in> set (sales db) \<and> d1 \<le> s_date s \<and> s_date s \<le> d2 \<and>
               td_period trow = date_trunc f (s_date s) \<and>
               td_period trow \<le> s_date s \<and> td_period trow \<le> d2"
    by blast
qed

theorem bucket_period_truncates_sale_in_range_witness:
  "list_all (\<lambda>s. valid_date (s_date s)) (sales sample_db) \<and>
   (time_series_handler iso_date ''2021-12-31'' sample_db no_params =
      Data [\<lparr>tsd_period = (2021, 1, 1), tsd_totalRevenue = Some (JNum 60813),
             tsd_averageRevenue = Some (JNum 20271), tsd_saleCount = Some 3,
             tsd_activeUsers = Some 2\<rparr>,
            \<lparr>tsd_period = (2021, 2, 1), tsd_totalRevenue = Some (JNum 16562),
             tsd_averageRevenue = Some (JNum 16562), tsd_saleCount = Some 1,
             tsd_activeUsers = Some 1\<rparr>]) \<and>
   (\<exists>f d1 d2 s. field_of (timeInterval no_params) = Some f \<and>
      iso_date (or_default (startDate no_params) ''2021-01-01'') = Some d1 \<and>
      iso_date (end_date ''2021-12-31'' no_params) = Some d2 \<and>
      s \<in> set (sales sample_db) \<and> d1 \<le> s_date s \<and> s_date s \<le> d2 \<and>
      (2021, 2, 1) = date_trunc f (s_date s) \<and> (2021, 2, 1) \<le> s_date s \<and> (2021, 2, 1) \<le> d2)"
proof -
  have v: "\<forall>s \<in> set (sales sample_db). valid_date (s_date s)"
    by code_simp
  have h: "time_series_handler iso_date ''2021-12-31'' sample_db no_params =
      Data [\<lparr>tsd_period = (2021, 1, 1), tsd_totalRevenue = Some (JNum 60813),
             tsd_averageRevenue = Some (JNum 20271), tsd_saleCount = Some 3,
             tsd_activeUsers = Some 2\<rparr>,
            \<lparr>tsd_period = (2021, 2, 1), tsd_totalRevenue = Some (JNum 16562),
             tsd_averageRevenue = Some (JNum 16562), tsd_saleCount = Some 1,
             tsd_activeUsers = Some 1\<rparr>]"
    by code_simp
  have m: "\<lparr>tsd_period = (2021, 2, 1), tsd_totalRevenue = Some (JNum 16562),
             tsd_averageRevenue = Some (JNum 16562), tsd_saleCount = Some 1,
             tsd_activeUsers = Some 1\<rparr>
           \<in> set [\<lparr>tsd_period = (2021, 1, 1), tsd_totalRevenue = Some (JNum 60813),
             tsd_averageRevenue = Some (JNum 20271), tsd_saleCount = Some 3,
             tsd_activeUsers = Some 2\<rparr>,
            \<lparr>tsd_period = (2021, 2, 1), tsd_totalRevenue = Some (JNum 16562),
             tsd_averageRevenue = Some (JNum 16562), tsd_saleCount = Some 1,
             tsd_activeUsers = Some 1\<rparr>]"
    by simp
  from bucket_period_truncates_sale_in_range[OF v, of iso_date "''2021-12-31''" no_params
      "[\<lparr>tsd_period = (2021, 1, 1), tsd_totalRevenue = Some (JNum 60813),
             tsd_averageRevenue = Some (JNum 20271), tsd_saleCount = Some 3,
             tsd_activeUsers = Some 2\<rparr>,
            \<lparr>tsd_period = (2021, 2, 1), tsd_totalRevenue = Some (JNum 16562),
             tsd_averageRevenue = Some (JNum 16562), tsd_saleCount = Some 1,
             tsd_activeUsers = Some 1\<rparr>]"
      "\<lparr>tsd_period = (2021, 2, 1), tsd_totalRevenue = Some (JNum 16562),
             tsd_averageRevenue = Some (JNum 16562), tsd_saleCount = Some 1,
             tsd_activeUsers = Some 1\<rparr>" "[]"] h m
  have "\<exists>f d1 d2 s. field_of (timeInterval no_params) = Some f \<and>
      iso_date (or_default (startDate no_params) ''2021-01-01'') = Some d1 \<and>
      iso_date (end_date ''2021-12-31'' no_params) = Some d2 \<and>
      s \<in> set (sales sample_db) \<and> d1 \<le> s_date s \<and> s_date s \<le> d2 \<and>
      (2021, 2, 1) = date_trunc f (s_date s) \<and> (2021, 2, 1) \<le> s_date s \<and> (2021, 2, 1) \<le> d2"
    by simp
  with v h show ?thesis by (simp add: list_all_iff)
qed

text \<open>The period of a bucket lies before \<open>startDate\<close>: sales of 20 and 25 January, asked
  for from 15 to 31 January by month, are reported under 1 January.\<close>

theorem bucket_period_before_startDate:
  "time_series_handler iso_date ''2021-12-31'' sample_db
     (no_params\<lparr>startDate := Some ''2021-01-15'', endDate := Some ''2021-01-31''\<rparr>) =
     Data [\<lparr>tsd_period = (2021, 1, 1), tsd_totalRevenue = Some (JNum 40813),
            tsd_averageRevenue = Some (JNum (40813 / 2)), tsd_saleCount = Some 2,
            tsd_activeUsers = Some 2\<rparr>] \<and>
   trends_handler iso_date ''2021-12-31'' sample_db
     (no_params\<lparr>startDate := Some ''2021-01-15'', endDate := Some ''2021-01-31''\<rparr>) =
     Data [\<lparr>td_period = (2021, 1, 1), td_totalRevenue = JNum 40813, td_saleCount = 2,
            td_growthPercentage = JNull\<rparr>] \<and>
   iso_date ''2021-01-15'' = Some (2021, 1, 15) \<and>
   \<not> (2021, 1, 15) \<le> ((2021, 1, 1) :: date)"
  by code_simp

subsection \<open>Identifiers that do not parse\<close>

lemma time_series_query_bad_clause:
  assumes "c \<in> set cs" and "clause_on rd ps joined c = Inl e"
  shows "\<exists>e'. time_series_query rd ti joined cs ps db = Inl e'"
proof -
  from assms have "Inl e \<in> set (map (clause_on rd ps joined) cs)" by force
  from all_rows_Inl[OF this] obtain e' where
    "all_rows (map (clause_on rd ps joined) cs) = Inl e'" by blast
  then show ?thesis
    by (simp add: time_series_query_def time_series_where_def and_then_simps split: option.split)
qed

lemma time_series_filter_userId:
  assumes "userId q = Some a" and "a \<noteq> []"
  shows "fst (time_series_filter today q) ! 2 = User_id_eq 3 \<and>
         2 < length (fst (time_series_filter today q)) \<and>
         2 < length (snd (time_series_filter today q)) \<and>
         snd (time_series_filter today q) ! 2 = Number (parseInt a)"
  using assms by (simp add: time_series_filter_def Let_def truthy_def or_default_def nth_append)

lemma time_series_filter_groupId:
  assumes "groupId q = Some b" and "b \<noteq> []"
  shows "last (fst (time_series_filter today q)) =
           Group_id_eq (length (snd (time_series_filter today q))) \<and>
         fst (time_series_filter today q) \<noteq> [] \<and>
         1 \<le> length (snd (time_series_filter today q)) \<and>
         last (snd (time_series_filter today q)) = Number (parseInt b)"
  using assms by (simp add: time_series_filter_def Let_def truthy_def or_default_def)

lemma NaN_userId_error:
  assumes "userId q = Some a" and "a \<noteq> []" and "parseInt a = None"
  shows "time_series_handler rd today db q = Internal_server_error"
proof -
  let ?cs = "fst (time_series_filter today q)" and ?ps = "snd (time_series_filter today q)"
  from time_series_filter_userId[OF assms(1,2), of today] assms(3) have
    n: "?cs ! 2 = User_id_eq 3" "2 < length ?cs"
    and p: "?ps ! 2 = Number None" and l: "3 \<le> length ?ps"
    by auto
  from nth_mem[OF n(2)] n(1) have c: "User_id_eq 3 \<in> set ?cs" by simp
  have "clause_on rd ?ps (truthy (groupId q)) (User_id_eq 3) = Inl Invalid_text_representation"
    using p l by (simp add: clause_on_def param_at_def and_then_simps int_param_def)
  from time_series_query_bad_clause[OF c this, of "timeInterval q" db] show ?thesis
    by (auto simp: time_series_handler_def)
qed

lemma NaN_groupId_error:
  assumes "groupId q = Some b" and "b \<noteq> []" and "parseInt b = None"
  shows "time_series_handler rd today db q = Internal_server_error"
proof -
  let ?cs = "fst (time_series_filter today q)" and ?ps = "snd (time_series_filter today q)"
  from time_series_filter_groupId[OF assms(1,2), of today] assms(3) have
    c: "Group_id_eq (length ?ps) \<in> set ?cs" and p: "last ?ps = Number None" and l: "1 \<le> length ?ps"
    by (auto simp del: last_in_set dest!: last_in_set)
  from l p have "?ps ! (length ?ps - 1) = Number None"
    by (cases "?ps = []") (auto simp: last_conv_nth)
  then have "clause_on rd ?ps (truthy (groupId q)) (Group_id_eq (length ?ps)) =
          Inl Invalid_text_representation"
    using l assms(1,2) by (simp add: clause_on_def param_at_def and_then_simps int_param_def truthy_def)
  from time_series_query_bad_clause[OF c this, of "timeInterval q" db] show ?thesis
    by (auto simp: time_series_handler_def)
qed

text \<open>
  Claim C4, as amended.  The filter builder of the time-series report validates nothing
  and fails on no input.  A supplied non-empty \<open>userId\<close> adds the clause
  \<open>s.user_id = $3\<close> with the parameter \<open>parseInt(userId)\<close>, and a supplied non-empty
  \<open>groupId\<close> adds the clause \<open>ug.group_id = $n\<close> for the last parameter,
  \<open>parseInt(groupId)\<close>.  When \<open>parseInt\<close> yields \<open>NaN\<close>, the query is sent with that
  parameter, the database refuses it, and the request is answered with the generic status
  500.
\<close>

theorem unparseable_id_reaches_the_query:
  "(userId q = Some a \<and> a \<noteq> [] \<longrightarrow>
      fst (time_series_filter today q) ! 2 = User_id_eq 3 \<and>
      snd (time_series_filter today q) ! 2 = Number (parseInt a) \<and>
      (parseInt a = None \<longrightarrow> time_series_handler rd today db q = Internal_server_error)) \<and>
   (groupId q = Some b \<and> b \<noteq> [] \<longrightarrow>
      last (fst (time_series_filter today q)) =
        Group_id_eq (length (snd (time_series_filter today q))) \<and>
      last (snd (time_series_filter today q)) = Number (parseInt b) \<and>
      (parseInt b = None \<longrightarrow> time_series_handler rd today db q = Internal_server_error))"
  using time_series_filter_userId[of q a today] time_series_filter_groupId[of q b today]
    NaN_userId_error[of q a rd today db] NaN_groupId_error[of q b rd today db]
  by blast

theorem unparseable_id_reaches_the_query_witness:
  "userId (no_params\<lparr>userId := Some ''abc''\<rparr>) = Some ''abc'' \<and> ''abc'' \<noteq> [] \<and>
   parseInt ''abc'' = None \<and>
   snd (time_series_filter ''2021-12-31'' (no_params\<lparr>userId := Some ''abc''\<rparr>)) ! 2 = Number None \<and>
   time_series_handler iso_date ''2021-12-31'' sample_db (no_params\<lparr>userId := Some ''abc''\<rparr>) =
     Internal_server_error"
proof -
  have p: "parseInt ''abc'' = None" by code_simp
  have u: "userId (no_params\<lparr>userId := Some ''abc''\<rparr>) = Some ''abc''" by simp
  from unparseable_id_reaches_the_query[of "no_params\<lparr>userId := Some ''abc''\<rparr>" "''abc''"
      "''2021-12-31''" iso_date sample_db] p u
  show ?thesis by simp
qed

text \<open>For \<open>userId=abc\<close> the builder returns a filter whose third parameter is \<open>NaN\<close>; for
  \<open>groupId=12abc\<close> it returns a filter on group 12.\<close>

theorem non_numeric_userId_builds_filter:
  "time_series_filter ''2021-12-31'' (no_params\<lparr>userId := Some ''abc''\<rparr>) =
     ([Date_ge 1, Date_le 2, User_id_eq 3],
      [Text ''2021-01-01'', Text ''2021-12-31'', Number None]) \<and>
   time_series_filter ''2021-12-31'' (no_params\<lparr>groupId := Some ''12abc''\<rparr>) =
     ([Date_ge 1, Date_le 2, Group_id_eq 3],
      [Text ''2021-01-01'', Text ''2021-12-31'', Number (Some 12)])"
  by code_simp

subsection \<open>Rows of the user and group queries\<close>

lemma left_join_not_Nil: "left_join on t \<noteq> []"
  by (simp add: left_join_def)

lemma in_users_from:
  "(u, s, ug, g) \<in> set (users_from d1 d2 db) \<longleftrightarrow>
     u \<in> set (users db) \<and>
     s \<in> set (left_join (\<lambda>s. u_id u = s_user_id s \<and> d1 \<le> s_date s \<and> s_date s \<le> d2) (sales db)) \<and>
     ug \<in> set (left_join (\<lambda>m. u_id u = ug_user_id m) (user_groups db)) \<and>
     g \<in> set (case ug of None \<Rightarrow> [None]
               | Some m \<Rightarrow> left_join (\<lambda>g. ug_group_id m = g_id g) (groups db))"
  by (auto simp: users_from_def)

lemma in_groups_from:
  "(g, ug, s) \<in> set (groups_from d1 d2 db) \<longleftrightarrow>
     g \<in> set (groups db) \<and>
     ug \<in> set (left_join (\<lambda>m. g_id g = ug_group_id m) (user_groups db)) \<and>
     s \<in> set (case ug of None \<Rightarrow> [None]
               | Some m \<Rightarrow>
                   left_join (\<lambda>s. ug_user_id m = s_user_id s \<and> d1 \<le> s_date s \<and> s_date s \<le> d2)
                     (sales db))"
  by (auto simp: groups_from_def)

lemma left_join_member: "\<exists>x. x \<in> set (left_join on t)"
  using left_join_not_Nil[of on t] by (cases "left_join on t") auto

lemma users_from_keys:
  "(\<lambda>(u, s, ug, g). (u_id u, u_name u, u_role u)) ` set (users_from d1 d2 db) =
   (\<lambda>u. (u_id u, u_name u, u_role u)) ` set (users db)"
proof (intro equalityI subsetI)
  fix k assume "k \<in> (\<lambda>(u, s, ug, g). (u_id u, u_name u, u_role u)) ` set (users_from d1 d2 db)"
  then obtain u s ug g where "(u, s, ug, g) \<in> set (users_from d1 d2 db)"
    and k: "k = (u_id u, u_name u, u_role u)"
    by auto
  then have "u \<in> set (users db)" by (simp add: in_users_from)
  with k show "k \<in> (\<lambda>u. (u_id u, u_name u, u_role u)) ` set (users db)" by blast
next
  fix k assume "k \<in> (\<lambda>u. (u_id u, u_name u, u_role u)) ` set (users db)"
  then obtain u where u: "u \<in> set (users db)" and k: "k = (u_id u, u_name u, u_role u)"
    by auto
  obtain s where s: "s \<in> set (left_join (\<lambda>s. u_id u = s_user_id s \<and> d1 \<le> s_date s \<and> s_date s \<le> d2) (sales db))"
    using left_join_member by blast
  obtain ug where ug: "ug \<in> set (left_join (\<lambda>m. u_id u = ug_user_id m) (user_groups db))"
    using left_join_member by blast
  obtain g where g: "g \<in> set (case ug of None \<Rightarrow> [None]
               | Some m \<Rightarrow> left_join (\<lambda>g. ug_group_id m = g_id g) (groups db))"
    using left_join_member by (cases ug) auto
  from u s ug g have "(u, s, ug, g) \<in> set (users_from d1 d2 db)"
    by (simp add: in_users_from)
  then have "(\<lambda>(u, s, ug, g). (u_id u, u_name u, u_role u)) (u, s, ug, g)
      \<in> (\<lambda>(u, s, ug, g). (u_id u, u_name u, u_role u)) ` set (users_from d1 d2 db)"
    by (rule imageI)
  with k show "k \<in> (\<lambda>(u, s, ug, g). (u_id u, u_name u, u_role u)) ` set (users_from d1 d2 db)"
    by simp
qed

lemma groups_from_keys:
  "(\<lambda>(g, ug, s). (g_id g, g_name g)) ` set (groups_from d1 d2 db) =
   (\<lambda>g. (g_id g, g_name g)) ` set (groups db)"
proof (intro equalityI subsetI)
  fix k assume "k \<in> (\<lambda>(g, ug, s). (g_id g, g_name g)) ` set (groups_from d1 d2 db)"
  then obtain g ug s where "(g, ug, s) \<in> set (groups_from d1 d2 db)"
    and k: "k = (g_id g, g_name g)"
    by auto
  then have "g \<in> set (groups db)" by (simp add: in_groups_from)
  with k show "k \<in> (\<lambda>g. (g_id g, g_name g)) ` set (groups db)" by blast
next
  fix k assume "k \<in> (\<lambda>g. (g_id g, g_name g)) ` set (groups db)"
  then obtain g where g: "g \<in> set (groups db)" and k: "k = (g_id g, g_name g)"
    by auto
  obtain ug where ug: "ug \<in> set (left_join (\<lambda>m. g_id g = ug_group_id m) (user_groups db))"
    using left_join_member by blast
  obtain s where s: "s \<in> set (case ug of None \<Rightarrow> [None]
               | Some m \<Rightarrow>
                   left_join (\<lambda>s. ug_user_id m = s_user_id s \<and> d1 \<le> s_date s \<and> s_date s \<le> d2)
                     (sales db))"
    using left_join_member by (cases ug) auto
  from g ug s have "(g, ug, s) \<in> set (groups_from d1 d2 db)"
    by (simp add: in_groups_from)
  then have "(\<lambda>(g, ug, s). (g_id g, g_name g)) (g, ug, s)
      \<in> (\<lambda>(g, ug, s). (g_id g, g_name g)) ` set (groups_from d1 d2 db)"
    by (rule imageI)
  with k show "k \<in> (\<lambda>(g, ug, s). (g_id g, g_name g)) ` set (groups_from d1 d2 db)"
    by simp
qed

lemma all_rows_length: "all_rows xs = Inr ys \<Longrightarrow> length ys = length xs"
  using all_rows_Inr[of xs ys] by (metis length_map)

lemma limit_param_Inr: "limit_param p = Inr n \<Longrightarrow> p = Number (Some (int n))"
  by (auto simp: limit_param_def split: param.splits option.splits if_splits)

lemma users_handler_Data:
  assumes "users_handler rd today db q = Data rows"
  shows "\<exists>rs. users_query rd (users_params today q) db = Inr rs \<and> rows = map users_row rs"
  using assms by (auto simp: users_handler_def split: sum.splits)

lemma users_query_Inr:
  assumes "users_query rd (users_params today q) db = Inr rs"
  shows "\<exists>d1 d2 n sel.
           rd (or_default (startDate q) ''2021-01-01'') = Some d1 \<and>
           rd (end_date today q) = Some d2 \<and>
           (case limit q of None \<Rightarrow> Some 10 | Some l \<Rightarrow> parseInt l) = Some (int n) \<and>
           all_rows (map users_select
             (group_by (\<lambda>(u, s, ug, g). (u_id u, u_name u, u_role u)) (users_from d1 d2 db))) = Inr sel \<and>
           rs = take n (sort_key (\<lambda>r. desc_nulls_last (us_total_revenue r)) sel)"
proof -
  from assms obtain d1 d2 n sel where
    "date_param rd (Text (or_default (startDate q) ''2021-01-01'')) = Inr d1"
    "date_param rd (Text (end_date today q)) = Inr d2"
    "limit_param (Number (case limit q of None \<Rightarrow> Some 10 | Some l \<Rightarrow> parseInt l)) = Inr n"
    "all_rows (map users_select
             (group_by (\<lambda>(u, s, ug, g). (u_id u, u_name u, u_role u)) (users_from d1 d2 db))) = Inr sel"
    "rs = take n (sort_key (\<lambda>r. desc_nulls_last (us_total_revenue r)) sel)"
    by (auto simp: users_query_def users_params_def and_then_Inr_iff param_at_def)
  then show ?thesis
    by (auto simp: date_param_def dest!: limit_param_Inr split: option.splits)
qed

lemma groups_handler_Data:
  assumes "groups_handler rd today db q = Data rows"
  shows "\<exists>rs. groups_query rd (date_params today q) db = Inr rs \<and> rows = map groups_row rs"
  using assms by (auto simp: groups_handler_def split: sum.splits)

lemma groups_query_Inr:
  assumes "groups_query rd (date_params today q) db = Inr rs"
  shows "\<exists>d1 d2 sel.
           rd (or_default (startDate q) ''2021-01-01'') = Some d1 \<and>
           rd (end_date today q) = Some d2 \<and>
           all_rows (map groups_select
             (group_by (\<lambda>(g, ug, s). (g_id g, g_name g)) (groups_from d1 d2 db))) = Inr sel \<and>
           rs = sort_key (\<lambda>r. desc_nulls_last (gs_total_revenue r)) sel"
  using assms
  by (auto simp: groups_query_def date_params_def and_then_Inr_iff param_at_def date_param_def
           split: option.splits)

lemma users_rows_length:
  assumes "users_handler rd today db q = Data rows"
  shows "\<exists>n. (case limit q of None \<Rightarrow> Some 10 | Some l \<Rightarrow> parseInt l) = Some (int n) \<and>
           length rows = min (card ((\<lambda>u. (u_id u, u_name u, u_role u)) ` set (users db))) n"
proof -
  from users_handler_Data[OF assms] obtain rs where
    q: "users_query rd (users_params today q) db = Inr rs" and rows: "rows = map users_row rs"
    by blast
  from users_query_Inr[OF q] obtain d1 d2 n sel where
    n: "(case limit q of None \<Rightarrow> Some 10 | Some l \<Rightarrow> parseInt l) = Some (int n)"
    and sel: "all_rows (map users_select
             (group_by (\<lambda>(u, s, ug, g). (u_id u, u_name u, u_role u)) (users_from d1 d2 db))) = Inr sel"
    and rs: "rs = take n (sort_key (\<lambda>r. desc_nulls_last (us_total_revenue r)) sel)"
    by blast
  from all_rows_length[OF sel] have
    "length sel = card ((\<lambda>u. (u_id u, u_name u, u_role u)) ` set (users db))"
    by (simp add: length_group_by users_from_keys)
  with rs rows n show ?thesis by simp
qed

lemma groups_rows_length:
  assumes "groups_handler rd today db q = Data rows"
  shows "length rows = card ((\<lambda>g. (g_id g, g_name g)) ` set (groups db))"
proof -
  from groups_handler_Data[OF assms] obtain rs where
    q: "groups_query rd (date_params today q) db = Inr rs" and rows: "rows = map groups_row rs"
    by blast
  from groups_query_Inr[OF q] obtain d1 d2 sel where
    sel: "all_rows (map groups_select
             (group_by (\<lambda>(g, ug, s). (g_id g, g_name g)) (groups_from d1 d2 db))) = Inr sel"
    and rs: "rs = sort_key (\<lambda>r. desc_nulls_last (gs_total_revenue r)) sel"
    by blast
  from all_rows_length[OF sel] have
    "length sel = card ((\<lambda>g. (g_id g, g_name g)) ` set (groups db))"
    by (simp add: length_group_by groups_from_keys)
  with rs rows show ?thesis by simp
qed

lemma time_series_rows_length:
  assumes "time_series_handler rd today db q = Data rows"
  shows "\<exists>f matched. field_of (timeInterval q) = Some f \<and>
           time_series_where rd (truthy (groupId q)) (fst (time_series_filter today q))
             (snd (time_series_filter today q)) db = Inr matched \<and>
           length rows = card ((\<lambda>(s, u, ug). date_trunc f (s_date s)) ` set matched)"
proof -
  from time_series_handler_Data[OF assms] obtain rs where
    rs: "time_series_query rd (timeInterval q) (truthy (groupId q))
           (fst (time_series_filter today q)) (snd (time_series_filter today q)) db = Inr rs"
    and rows: "rows = map (time_series_row (or_default (metric q) ''all'')) rs"
    by blast
  from rs obtain f matched sel where
    f: "field_of (timeInterval q) = Some f"
    and w: "time_series_where rd (truthy (groupId q)) (fst (time_series_filter today q))
             (snd (time_series_filter today q)) db = Inr matched"
    and sel: "all_rows (map time_series_select
                (group_by (\<lambda>(s, u, ug). date_trunc f (s_date s)) matched)) = Inr sel"
    and s: "rs = sort_key ts_period sel"
    by (auto simp: time_series_query_def and_then_Inr_iff split: option.splits)
  from all_rows_length[OF sel] s rows have
    "length rows = card ((\<lambda>(s, u, ug). date_trunc f (s_date s)) ` set matched)"
    by (simp add: length_group_by)
  with f w show ?thesis by blast
qed

lemma length_lag: "length (lag col) = length col"
  by (simp add: lag_def)

lemma trends_rows_length:
  assumes "trends_handler rd today db q = Data rows"
  shows "\<exists>f d1 d2. field_of (timeInterval q) = Some f \<and>
           rd (or_default (startDate q) ''2021-01-01'') = Some d1 \<and>
           rd (end_date today q) = Some d2 \<and>
           length rows = card ((\<lambda>s. date_trunc f (s_date s)) `
                                 {s \<in> set (sales db). d1 \<le> s_date s \<and> s_date s \<le> d2})"
proof -
  from trends_handler_Data[OF assms] obtain rs where
    rs: "trends_query rd (timeInterval q)
           [Text (or_default (startDate q) ''2021-01-01''), Text (end_date today q)] db = Inr rs"
    and rows: "rows = map trends_row rs"
    by blast
  from rs obtain f d1 d2 sel where
    f: "field_of (timeInterval q) = Some f"
    and d: "rd (or_default (startDate q) ''2021-01-01'') = Some d1" "rd (end_date today q) = Some d2"
    and sel: "all_rows (map trends_select (stats f d1 d2 db)) = Inr sel"
    and s: "rs = sort_key tr_period sel"
    by (auto simp: trends_query_def and_then_Inr_iff param_at_def date_param_def
             split: option.splits)
  have "length (stats f d1 d2 db) =
          card ((\<lambda>s. date_trunc f (s_date s)) ` set (filter (\<lambda>s. d1 \<le> s_date s \<and> s_date s \<le> d2) (sales db)))"
    by (simp add: stats_def Let_def length_lag length_group_by)
  with all_rows_length[OF sel] s rows have
    "length rows = card ((\<lambda>s. date_trunc f (s_date s)) `
                                 {s \<in> set (sales db). d1 \<le> s_date s \<and> s_date s \<le> d2})"
    by simp
  with f d show ?thesis by blast
qed

subsection \<open>The sample reports\<close>

lemma sample_users:
  "users_handler iso_date ''2021-12-31'' sample_db no_params =
     Data [\<lparr>ud_userId = 1, ud_name = ''Ann'', ud_role = ''Agent'', ud_saleCount = 2,
            ud_totalRevenue = JNum 40000, ud_averageRevenue = JNum 20000,
            ud_activeDays = 2, ud_groups = [''North'', ''North'']\<rparr>,
           \<lparr>ud_userId = 2, ud_name = ''Bob'', ud_role = ''Agent'', ud_saleCount = 2,
            ud_totalRevenue = JNum 37375, ud_averageRevenue = JNum (37375 / 2),
            ud_activeDays = 2, ud_groups = []\<rparr>,
           \<lparr>ud_userId = 3, ud_name = ''Cy'', ud_role = ''Agent'', ud_saleCount = 0,
            ud_totalRevenue = JNum 0, ud_averageRevenue = JNum 0,
            ud_activeDays = 0, ud_groups = []\<rparr>]"
  by code_simp

lemma sample_users_limit_2:
  "users_handler iso_date ''2021-12-31'' sample_db (no_params\<lparr>limit := Some ''2''\<rparr>) =
     Data [\<lparr>ud_userId = 1, ud_name = ''Ann'', ud_role = ''Agent'', ud_saleCount = 2,
            ud_totalRevenue = JNum 40000, ud_averageRevenue = JNum 20000,
            ud_activeDays = 2, ud_groups = [''North'', ''North'']\<rparr>,
           \<lparr>ud_userId = 2, ud_name = ''Bob'', ud_role = ''Agent'', ud_saleCount = 2,
            ud_totalRevenue = JNum 37375, ud_averageRevenue = JNum (37375 / 2),
            ud_activeDays = 2, ud_groups = []\<rparr>]"
  by code_simp

lemma sample_groups:
  "groups_handler iso_date ''2021-12-31'' sample_db no_params =
     Data [\<lparr>gd_groupId = 1, gd_name = ''North'', gd_memberCount = 1, gd_saleCount = 2,
            gd_totalRevenue = JNum 40000, gd_avgRevenuePerSale = JNum 20000,
            gd_avgRevenuePerMember = JNum 40000\<rparr>,
           \<lparr>gd_groupId = 2, gd_name = ''Empty'', gd_memberCount = 0, gd_saleCount = 0,
            gd_totalRevenue = JNum 0, gd_avgRevenuePerSale = JNum 0,
            gd_avgRevenuePerMember = JNum 0\<rparr>]"
  by code_simp

subsection \<open>Truncation\<close>

text \<open>
  Claim C8.  A user report that is emitted has as many rows as the smaller of the number
  of distinct users (distinct \<open>id\<close>, \<open>name\<close>, \<open>role\<close>, the grouping key) and the limit,
  which is \<open>parseInt(limit)\<close> and 10 when \<open>limit\<close> is absent.  The other three reports
  are not truncated: the group report has one row per distinct group, the time-series
  report one row per distinct bucket of the rows that pass its filter, the trend report
  one row per distinct bucket of the sales within the date range.
\<close>

theorem only_users_report_truncates:
  "(users_handler rd today db q = Data urows \<longrightarrow>
      (\<exists>n. (case limit q of None \<Rightarrow> Some 10 | Some l \<Rightarrow> parseInt l) = Some (int n) \<and>
         length urows = min (card ((\<lambda>u. (u_id u, u_name u, u_role u)) ` set (users db))) n) \<and>
      (limit q = None \<longrightarrow>
         length urows = min (card ((\<lambda>u. (u_id u, u_name u, u_role u)) ` set (users db))) 10)) \<and>
   (groups_handler rd today db q = Data grows \<longrightarrow>
      length grows = card ((\<lambda>g. (g_id g, g_name g)) ` set (groups db))) \<and>
   (time_series_handler rd today db q = Data tsrows \<longrightarrow>
      (\<exists>f matched. field_of (timeInterval q) = Some f \<and>
         time_series_where rd (truthy (groupId q)) (fst (time_series_filter today q))
           (snd (time_series_filter today q)) db = Inr matched \<and>
         length tsrows = card ((\<lambda>(s, u, ug). date_trunc f (s_date s)) ` set matched))) \<and>
   (trends_handler rd today db q = Data trows \<longrightarrow>
      (\<exists>f d1 d2. field_of (timeInterval q) = Some f \<and>
         rd (or_default (startDate q) ''2021-01-01'') = Some d1 \<and>
         rd (end_date today q) = Some d2 \<and>
         length trows = card ((\<lambda>s. date_trunc f (s_date s)) `
                                {s \<in> set (sales db). d1 \<le> s_date s \<and> s_date s \<le> d2})))"
proof (intro conjI impI)
  assume h: "users_handler rd today db q = Data urows"
  from users_rows_length[OF h]
  show "\<exists>n. (case limit q of None \<Rightarrow> Some 10 | Some l \<Rightarrow> parseInt l) = Some (int n) \<and>
         length urows = min (card ((\<lambda>u. (u_id u, u_name u, u_role u)) ` set (users db))) n" .
  assume "limit q = None"
  with users_rows_length[OF h]
  show "length urows = min (card ((\<lambda>u. (u_id u, u_name u, u_role u)) ` set (users db))) 10"
    by auto
next
  assume "groups_handler rd today db q = Data grows"
  then show "length grows = card ((\<lambda>g. (g_id g, g_name g)) ` set (groups db))"
    by (rule groups_rows_length)
next
  assume "time_series_handler rd today db q = Data tsrows"
  then show "\<exists>f matched. field_of (timeInterval q) = Some f \<and>
         time_series_where rd (truthy (groupId q)) (fst (time_series_filter today q))
           (snd (time_series_filter today q)) db = Inr matched \<and>
         length tsrows = card ((\<lambda>(s, u, ug). date_trunc f (s_date s)) ` set matched)"
    by (rule time_series_rows_length)
next
  assume "trends_handler rd today db q = Data trows"
  then show "\<exists>f d1 d2. field_of (timeInterval q) = Some f \<and>
         rd (or_default (startDate q) ''2021-01-01'') = Some d1 \<and>
         rd (end_date today q) = Some d2 \<and>
         length trows = card ((\<lambda>s. date_trunc f (s_date s)) `
                                {s \<in> set (sales db). d1 \<le> s_date s \<and> s_date s \<le> d2})"
    by (rule trends_rows_length)
qed

theorem only_users_report_truncates_witness:
  "users_handler iso_date ''2021-12-31'' sample_db (no_params\<lparr>limit := Some ''2''\<rparr>) =
     Data [\<lparr>ud_userId = 1, ud_name = ''Ann'', ud_role = ''Agent'', ud_saleCount = 2,
            ud_totalRevenue = JNum 40000, ud_averageRevenue = JNum 20000,
            ud_activeDays = 2, ud_groups = [''North'', ''North'']\<rparr>,
           \<lparr>ud_userId = 2, ud_name = ''Bob'', ud_role = ''Agent'', ud_saleCount = 2,
            ud_totalRevenue = JNum 37375, ud_averageRevenue = JNum (37375 / 2),
            ud_activeDays = 2, ud_groups = []\<rparr>] \<and>
   parseInt ''2'' = Some 2 \<and>
   card ((\<lambda>u. (u_id u, u_name u, u_role u)) ` set (users sample_db)) = 3 \<and>
   (\<exists>n. (case limit (no_params\<lparr>limit := Some ''2''\<rparr>) of None \<Rightarrow> Some 10 | Some l \<Rightarrow> parseInt l) =
           Some (int n) \<and>
        length [\<lparr>ud_userId = 1, ud_name = ''Ann'', ud_role = ''Agent'', ud_saleCount = 2,
            ud_totalRevenue = JNum 40000, ud_averageRevenue = JNum 20000,
            ud_activeDays = 2, ud_groups = [''North'', ''North'']\<rparr>,
           \<lparr>ud_userId = 2, ud_name = ''Bob'', ud_role = ''Agent'', ud_saleCount = 2,
            ud_totalRevenue = JNum 37375, ud_averageRevenue = JNum (37375 / 2),
            ud_activeDays = 2, ud_groups = []\<rparr>] =
          min (card ((\<lambda>u. (u_id u, u_name u, u_role u)) ` set (users sample_db))) n)"
proof -
  note h = sample_users_limit_2
  have p: "parseInt ''2'' = Some 2" by code_simp
  have c: "card ((\<lambda>u. (u_id u, u_name u, u_role u)) ` set (users sample_db)) = 3"
    by (simp add: sample_db_def card_insert_if)
  from only_users_report_truncates[where rd = iso_date and today = "''2021-12-31''"
      and db = sample_db and q = "no_params\<lparr>limit := Some ''2''\<rparr>", THEN conjunct1, rule_format, OF h]
  have "\<exists>n. (case limit (no_params\<lparr>limit := Some ''2''\<rparr>) of None \<Rightarrow> Some 10 | Some l \<Rightarrow> parseInt l) =
           Some (int n) \<and>
        length [\<lparr>ud_userId = 1, ud_name = ''Ann'', ud_role = ''Agent'', ud_saleCount = 2,
            ud_totalRevenue = JNum 40000, ud_averageRevenue = JNum 20000,
            ud_activeDays = 2, ud_groups = [''North'', ''North'']\<rparr>,
           \<lparr>ud_userId = 2, ud_name = ''Bob'', ud_role = ''Agent'', ud_saleCount = 2,
            ud_totalRevenue = JNum 37375, ud_averageRevenue = JNum (37375 / 2),
            ud_activeDays = 2, ud_groups = []\<rparr>] =
          min (card ((\<lambda>u. (u_id u, u_name u, u_role u)) ` set (users sample_db))) n"
    by blast
  with h p c show ?thesis by blast
qed

subsection \<open>Users without a sale\<close>

lemma users_select_fields:
  assumes "users_select ((i, n, r), g) = Inr row"
  shows "us_id row = i \<and> us_name row = n \<and> us_role row = r \<and>
         us_sale_count row = sql_count (map (\<lambda>(u, s, ug, g). map_option s_id s) g) \<and>
         us_total_revenue row = sql_sum (map (\<lambda>(u, s, ug, g). map_option s_amount s) g) \<and>
         numeric_10_2 (sql_avg (map (\<lambda>(u, s, ug, g). map_option s_amount s) g)) =
           Inr (us_avg_revenue row)"
  using assms by (auto simp: users_select_def and_then_Inr_iff)

lemma no_sale_columns:
  assumes "\<forall>(u, s, ug, g) \<in> set g. s = None"
  shows "non_null (map (\<lambda>(u, s, ug, g). map_option s_id s) g) = [] \<and>
         non_null (map (\<lambda>(u, s, ug, g). map_option s_amount s) g) = []"
  using assms by (auto simp: non_null_Nil_iff)

lemma sale_count_0:
  assumes "sql_count (map (\<lambda>(u, s, ug, g). map_option s_id s) g) = 0"
  shows "\<forall>(u, s, ug, g) \<in> set g. s = None"
proof -
  from assms have "non_null (map (\<lambda>(u, s, ug, g). map_option s_id s) g) = []"
    by (simp add: sql_count_def)
  then show ?thesis
    by (fastforce simp: non_null_Nil_iff)
qed

lemma users_select_no_sale:
  assumes "users_select (k, g) = Inr row" and "\<forall>(u, s, ug, g) \<in> set g. s = None"
  shows "us_sale_count row = 0 \<and> us_total_revenue row = None \<and> us_avg_revenue row = None"
proof -
  obtain i n r where k: "k = (i, n, r)" by (cases k)
  from no_sale_columns[OF assms(2)] users_select_fields[OF assms(1)[unfolded k]]
  show ?thesis
    by (simp add: sql_count_def sql_sum_def sql_avg_def numeric_10_2_def)
qed

lemma users_row_zero:
  assumes "us_sale_count r = 0 \<and> us_total_revenue r = None \<and> us_avg_revenue r = None"
  shows "ud_saleCount (users_row r) = 0 \<and> ud_totalRevenue (users_row r) = JNum 0 \<and>
         ud_averageRevenue (users_row r) = JNum 0"
  using assms by (simp add: users_row_def parseFloat_def or_0_def to_json_def)

lemma all_rows_member: "all_rows xs = Inr ys \<Longrightarrow> Inr y \<in> set xs \<longleftrightarrow> y \<in> set ys"
  by (auto dest!: all_rows_Inr)

lemma users_selected:
  assumes "all_rows (map users_select (group_by key rows)) = Inr sel"
  shows "r \<in> set sel \<longleftrightarrow> (\<exists>k g. (k, g) \<in> set (group_by key rows) \<and> users_select (k, g) = Inr r)"
proof -
  have "r \<in> set sel \<longleftrightarrow> Inr r \<in> users_select ` set (group_by key rows)"
    using all_rows_member[OF assms, of r] by simp
  also have "\<dots> \<longleftrightarrow> (\<exists>k g. (k, g) \<in> set (group_by key rows) \<and> users_select (k, g) = Inr r)"
    by (force simp: image_iff)
  finally show ?thesis .
qed

lemma group_by_key_member:
  "r \<in> set rows \<Longrightarrow> (key r, filter (\<lambda>x. key x = key r) rows) \<in> set (group_by key rows)"
  by (auto simp: group_by_def)

text \<open>
  Claim C2, as amended.  In an emitted user report, every row with \<open>saleCount\<close> 0 has
  \<open>totalRevenue\<close> 0 and \<open>averageRevenue\<close> 0, the number zero and not \<open>null\<close>.  When the
  limit is not below the number of distinct users, every user without a sale in the date
  range has such a row, with the user's id, name and role.
\<close>

theorem zero_sale_users_have_zero_revenue:
  assumes "users_handler rd today db q = Data rows"
  shows "\<exists>d1 d2 n.
           rd (or_default (startDate q) ''2021-01-01'') = Some d1 \<and>
           rd (end_date today q) = Some d2 \<and>
           (case limit q of None \<Rightarrow> Some 10 | Some l \<Rightarrow> parseInt l) = Some (int n) \<and>
           (\<forall>row \<in> set rows. ud_saleCount row = 0 \<longrightarrow>
              ud_totalRevenue row = JNum 0 \<and> ud_averageRevenue row = JNum 0) \<and>
           (\<forall>u \<in> set (users db).
              card ((\<lambda>u. (u_id u, u_name u, u_role u)) ` set (users db)) \<le> n \<and>
              \<not> (\<exists>s \<in> set (sales db). s_user_id s = u_id u \<and> d1 \<le> s_date s \<and> s_date s \<le> d2) \<longrightarrow>
              (\<exists>row \<in> set rows. ud_userId row = u_id u \<and> ud_name row = u_name u \<and>
                 ud_role row = u_role u \<and> ud_saleCount row = 0 \<and>
                 ud_totalRevenue row = JNum 0 \<and> ud_averageRevenue row = JNum 0))"
proof -
  let ?key = "\<lambda>(u, s, ug, g). (u_id u, u_name u, u_role u)"
  from users_handler_Data[OF assms] obtain rs where
    q: "users_query rd (users_params today q) db = Inr rs" and rows: "rows = map users_row rs"
    by blast
  from users_query_Inr[OF q] obtain d1 d2 n sel where
    d: "rd (or_default (startDate q) ''2021-01-01'') = Some d1" "rd (end_date today q) = Some d2"
    and n: "(case limit q of None \<Rightarrow> Some 10 | Some l \<Rightarrow> parseInt l) = Some (int n)"
    and sel: "all_rows (map users_select (group_by ?key (users_from d1 d2 db))) = Inr sel"
    and rs: "rs = take n (sort_key (\<lambda>r. desc_nulls_last (us_total_revenue r)) sel)"
    by blast
  have len: "length sel = card ((\<lambda>u. (u_id u, u_name u, u_role u)) ` set (users db))"
    using all_rows_length[OF sel] by (simp add: length_group_by users_from_keys)
  have a: "\<forall>row \<in> set rows. ud_saleCount row = 0 \<longrightarrow>
              ud_totalRevenue row = JNum 0 \<and> ud_averageRevenue row = JNum 0"
  proof (intro ballI impI)
    fix row assume "row \<in> set rows" and z: "ud_saleCount row = 0"
    then obtain r where r: "r \<in> set rs" and row: "row = users_row r"
      using rows by auto
    from r rs have "r \<in> set sel" by (auto dest: in_set_takeD)
    then obtain k g where kg: "users_select (k, g) = Inr r"
      using users_selected[OF sel] by blast
    obtain i nm rl where k: "k = (i, nm, rl)" by (cases k)
    from z row have "us_sale_count r = 0" by (simp add: users_row_def)
    with users_select_fields[OF kg[unfolded k]] have "\<forall>(u, s, ug, g) \<in> set g. s = None"
      by (intro sale_count_0) simp
    from users_select_no_sale[OF kg this] row
    show "ud_totalRevenue row = JNum 0 \<and> ud_averageRevenue row = JNum 0"
      using users_row_zero[of r] by simp
  qed
  have b: "\<forall>u \<in> set (users db).
              card ((\<lambda>u. (u_id u, u_name u, u_role u)) ` set (users db)) \<le> n \<and>
              \<not> (\<exists>s \<in> set (sales db). s_user_id s = u_id u \<and> d1 \<le> s_date s \<and> s_date s \<le> d2) \<longrightarrow>
              (\<exists>row \<in> set rows. ud_userId row = u_id u \<and> ud_name row = u_name u \<and>
                 ud_role row = u_role u \<and> ud_saleCount row = 0 \<and>
                 ud_totalRevenue row = JNum 0 \<and> ud_averageRevenue row = JNum 0)"
  proof (intro ballI impI, elim conjE)
    fix u
    assume u: "u \<in> set (users db)"
      and c: "card ((\<lambda>u. (u_id u, u_name u, u_role u)) ` set (users db)) \<le> n"
      and no: "\<not> (\<exists>s \<in> set (sales db). s_user_id s = u_id u \<and> d1 \<le> s_date s \<and> s_date s \<le> d2)"
    from u have "(u_id u, u_name u, u_role u) \<in> ?key ` set (users_from d1 d2 db)"
      by (simp add: users_from_keys)
    then obtain x where x: "x \<in> set (users_from d1 d2 db)" and kx: "?key x = (u_id u, u_name u, u_role u)"
      by (auto simp: image_iff)
    let ?g = "filter (\<lambda>y. ?key y = ?key x) (users_from d1 d2 db)"
    from group_by_key_member[OF x] have m: "(?key x, ?g) \<in> set (group_by ?key (users_from d1 d2 db))" .
    then have "users_select (?key x, ?g) \<in> set (map users_select (group_by ?key (users_from d1 d2 db)))"
      by simp
    with all_rows_Inr[OF sel] obtain r where r: "r \<in> set sel"
      and sr: "users_select (?key x, ?g) = Inr r"
      by auto
    have nosale: "\<forall>(u', s, ug, g) \<in> set ?g. s = None"
    proof (clarify)
      fix u' s ug g assume "(u', s, ug, g) \<in> set ?g"
      then have in_from: "(u', s, ug, g) \<in> set (users_from d1 d2 db)"
        and "?key (u', s, ug, g) = ?key x"
        by auto
      with kx have id: "u_id u' = u_id u" by simp
      from in_from have
        "s \<in> set (left_join (\<lambda>s. u_id u' = s_user_id s \<and> d1 \<le> s_date s \<and> s_date s \<le> d2) (sales db))"
        by (simp add: in_users_from)
      moreover have "filter (\<lambda>s. u_id u' = s_user_id s \<and> d1 \<le> s_date s \<and> s_date s \<le> d2) (sales db) = []"
        using no id by (auto simp: filter_empty_conv)
      ultimately show "s = None" by (simp add: left_join_def)
    qed
    from users_select_no_sale[OF sr nosale] have
      z: "us_sale_count r = 0 \<and> us_total_revenue r = None \<and> us_avg_revenue r = None" .
    from sr kx have f: "us_id r = u_id u \<and> us_name r = u_name u \<and> us_role r = u_role u"
      using users_select_fields[of "u_id u" "u_name u" "u_role u" ?g r] by simp
    from r c len have "r \<in> set rs" by (simp add: rs)
    then have "users_row r \<in> set rows" by (simp add: rows)
    moreover from f have "ud_userId (users_row r) = u_id u \<and> ud_name (users_row r) = u_name u \<and>
        ud_role (users_row r) = u_role u"
      by (simp add: users_row_def)
    ultimately show "\<exists>row \<in> set rows. ud_userId row = u_id u \<and> ud_name row = u_name u \<and>
                 ud_role row = u_role u \<and> ud_saleCount row = 0 \<and>
                 ud_totalRevenue row = JNum 0 \<and> ud_averageRevenue row = JNum 0"
      using users_row_zero[OF z] by blast
  qed
  from d n a b show ?thesis by blast
qed

theorem zero_sale_users_have_zero_revenue_witness:
  "users_handler iso_date ''2021-12-31'' sample_db no_params =
     Data [\<lparr>ud_userId = 1, ud_name = ''Ann'', ud_role = ''Agent'', ud_saleCount = 2,
            ud_totalRevenue = JNum 40000, ud_averageRevenue = JNum 20000,
            ud_activeDays = 2, ud_groups = [''North'', ''North'']\<rparr>,
           \<lparr>ud_userId = 2, ud_name = ''Bob'', ud_role = ''Agent'', ud_saleCount = 2,
            ud_totalRevenue = JNum 37375, ud_averageRevenue = JNum (37375 / 2),
            ud_activeDays = 2, ud_groups = []\<rparr>,
           \<lparr>ud_userId = 3, ud_name = ''Cy'', ud_role = ''Agent'', ud_saleCount = 0,
            ud_totalRevenue = JNum 0, ud_averageRevenue = JNum 0,
            ud_activeDays = 0, ud_groups = []\<rparr>] \<and>
   (\<exists>d1 d2 n.
      iso_date (or_default (startDate no_params) ''2021-01-01'') = Some d1 \<and>
      iso_date (end_date ''2021-12-31'' no_params) = Some d2 \<and>
      (case limit no_params of None \<Rightarrow> Some 10 | Some l \<Rightarrow> parseInt l) = Some (int n) \<and>
      card ((\<lambda>u. (u_id u, u_name u, u_role u)) ` set (users sample_db)) \<le> n \<and>
      \<not> (\<exists>s \<in> set (sales sample_db). s_user_id s = 3 \<and> d1 \<le> s_date s \<and> s_date s \<le> d2))"
proof -
  note h = sample_users
  from zero_sale_users_have_zero_revenue[OF h] obtain d1 d2 n where
    d: "iso_date (or_default (startDate no_params) ''2021-01-01'') = Some d1"
       "iso_date (end_date ''2021-12-31'' no_params) = Some d2"
    and n: "(case limit no_params of None \<Rightarrow> Some 10 | Some l \<Rightarrow> parseInt l) = Some (int n)"
    by blast
  from n have n10: "n = 10" by (simp add: no_params_def)
  have "card ((\<lambda>u. (u_id u, u_name u, u_role u)) ` set (users sample_db)) \<le> 10"
    by (simp add: sample_db_def card_insert_if)
  moreover have "\<not> (\<exists>s \<in> set (sales sample_db). s_user_id s = 3 \<and> d1 \<le> s_date s \<and> s_date s \<le> d2)"
    by (simp add: sample_db_def)
  ultimately show ?thesis using h d n n10 by blast
qed

text \<open>The user without a sale is emitted with revenue 0, not \<open>null\<close>; with \<open>limit=2\<close>
  the same user is not emitted at all.\<close>

theorem zero_sale_user_revenue_is_zero:
  "users_handler iso_date ''2021-12-31'' sample_db no_params =
     Data [\<lparr>ud_userId = 1, ud_name = ''Ann'', ud_role = ''Agent'', ud_saleCount = 2,
            ud_totalRevenue = JNum 40000, ud_averageRevenue = JNum 20000,
            ud_activeDays = 2, ud_groups = [''North'', ''North'']\<rparr>,
           \<lparr>ud_userId = 2, ud_name = ''Bob'', ud_role = ''Agent'', ud_saleCount = 2,
            ud_totalRevenue = JNum 37375, ud_averageRevenue = JNum (37375 / 2),
            ud_activeDays = 2, ud_groups = []\<rparr>,
           \<lparr>ud_userId = 3, ud_name = ''Cy'', ud_role = ''Agent'', ud_saleCount = 0,
            ud_totalRevenue = JNum 0, ud_averageRevenue = JNum 0,
            ud_activeDays = 0, ud_groups = []\<rparr>] \<and>
   JNum 0 \<noteq> JNull \<and>
   users_handler iso_date ''2021-12-31'' sample_db (no_params\<lparr>limit := Some ''2''\<rparr>) =
     Data [\<lparr>ud_userId = 1, ud_name = ''Ann'', ud_role = ''Agent'', ud_saleCount = 2,
            ud_totalRevenue = JNum 40000, ud_averageRevenue = JNum 20000,
            ud_activeDays = 2, ud_groups = [''North'', ''North'']\<rparr>,
           \<lparr>ud_userId = 2, ud_name = ''Bob'', ud_role = ''Agent'', ud_saleCount = 2,
            ud_totalRevenue = JNum 37375, ud_averageRevenue = JNum (37375 / 2),
            ud_activeDays = 2, ud_groups = []\<rparr>]"
  using sample_users sample_users_limit_2 by simp

subsection \<open>Revenue per member\<close>

lemma sql_count_distinct_nonneg: "0 \<le> sql_count_distinct col"
  by (simp add: sql_count_distinct_def)

lemma floor_rat_numeral [simp]: "\<lfloor>(numeral a :: rat) / numeral b\<rfloor> = numeral a div numeral b"
  using floor_divide_of_int_eq[where ?'a = rat, of "numeral a" "numeral b"] by simp

lemma floorlog_eqI:
  assumes "1 < b" and "b ^ k \<le> n" and "n < b ^ Suc k"
  shows "floorlog b n = Suc k"
proof -
  have "0 < b ^ k" using assms(1) by simp
  from this assms(2) have n: "0 < n" by (rule less_le_trans)
  from floorlog_bounds[OF n assms(1)] have
    lo: "b ^ (floorlog b n - 1) \<le> n" and hi: "n < b ^ floorlog b n" by auto
  from assms(2) hi have "b ^ k < b ^ floorlog b n" by (rule le_less_trans)
  then have a: "k < floorlog b n" using assms(1) by (rule power_less_imp_less_exp[rotated])
  from lo assms(3) have "b ^ (floorlog b n - 1) < b ^ Suc k" by (rule le_less_trans)
  then have "floorlog b n - 1 < Suc k" using assms(1) by (rule power_less_imp_less_exp[rotated])
  with a show ?thesis by simp
qed

lemma floor_log_eqI:
  assumes "1 < b" and "of_nat b ^ k \<le> x" and "x < of_nat b ^ Suc k"
  shows "floor_log b x = int k"
proof -
  have one: "(1::rat) \<le> of_nat b ^ k" using assms(1) by (simp add: one_le_power)
  with assms(2) have x1: "1 \<le> x" by simp
  have "of_int (int (b ^ k)) \<le> x" using assms(2) by simp
  then have "int (b ^ k) \<le> \<lfloor>x\<rfloor>" by (rule le_floor_iff[THEN iffD2])
  then have lo: "b ^ k \<le> nat \<lfloor>x\<rfloor>" by (simp add: le_nat_iff flip: of_nat_power)
  have "x < of_int (int (b ^ Suc k))" using assms(3) by simp
  then have "\<lfloor>x\<rfloor> < int (b ^ Suc k)" by (rule floor_less_iff[THEN iffD2])
  then have hi: "nat \<lfloor>x\<rfloor> < b ^ Suc k" using x1 by (simp add: nat_less_iff flip: of_nat_power)
  from floorlog_eqI[OF assms(1) lo hi] x1 show ?thesis by (simp add: floor_log_def)
qed

lemma weight_40000: "weight 40000 = 1"
  using floor_log_eqI[of 10000 1 40000] by (simp add: weight_def)

lemma weight_3: "weight 3 = 0"
  using floor_log_eqI[of 10000 0 3] by (simp add: weight_def)

lemma numeric_div_40000_3: "numeric_div 0 0 40000 3 = 13333333333333333 / 1000000000000"
  by (simp add: numeric_div_def select_div_scale_def first_digit_def weight_40000 weight_3
        int_power_def round_to_scale_def Let_def)

lemma nearest_double_quotient:
  "nearest_double (13333333333333333 / 1000000000000) = 3665038759253333 / 274877906944"
  using floor_log_eqI[of 2 13 "13333333333333333 / 1000000000000"]
  by (simp add: nearest_double_def int_power_def round_half_even_def Let_def)

lemma nearest_double_40000: "nearest_double 40000 = 40000"
  using floor_log_eqI[of 2 15 40000]
  by (simp add: nearest_double_def int_power_def round_half_even_def Let_def)

lemma nearest_double_third: "nearest_double (40000 / 3) = 7330077518506667 / 549755813888"
  using floor_log_eqI[of 2 13 "40000 / 3"]
  by (simp add: nearest_double_def int_power_def round_half_even_def Let_def)

lemma groups_exact_instance:
  "groups_handler_rounded (\<lambda>x y. x / y) (\<lambda>x. x) rd today db q = groups_handler rd today db q"
proof -
  have a: "sql_div_rounded (\<lambda>x y. x / y) = sql_div"
    by (intro ext) (simp add: sql_div_rounded_def sql_div_def)
  have b: "parseFloat_rounded (\<lambda>x. x) = parseFloat"
    by (intro ext) (simp add: parseFloat_rounded_def parseFloat_def)
  have c: "groups_select_rounded (\<lambda>x y. x / y) = groups_select"
    by (intro ext) (simp add: groups_select_rounded_def groups_select_def a)
  have d: "groups_row_rounded (\<lambda>x. x) = groups_row"
    by (intro ext) (simp add: groups_row_rounded_def groups_row_def b)
  show ?thesis
    by (simp add: groups_handler_rounded_def groups_handler_def groups_query_rounded_def
          groups_query_def c d split: sum.split)
qed

lemma to_json_or_0_Num: "to_json (or_0 (Num r)) = JNum r"
  by (simp add: to_json_def or_0_def)

lemma groups_select_rounded_per_member:
  assumes "groups_select_rounded quot (k, g) = Inr r"
  shows "0 \<le> gs_member_count r \<and>
         (gs_member_count r = 0 \<longrightarrow> gs_total_revenue r = None) \<and>
         (gs_total_revenue r = None \<longrightarrow> gs_avg_revenue_per_member r = None) \<and>
         (\<forall>t. gs_total_revenue r = Some t \<longrightarrow>
            gs_avg_revenue_per_member r = Some (quot t (of_int (gs_member_count r))))"
proof -
  obtain i n where k: "k = (i, n)" by (cases k)
  let ?total = "sql_sum (map (\<lambda>(g, ug, s). map_option s_amount s) g)"
  let ?members = "sql_count_distinct (map (\<lambda>(g, ug, s). map_option ug_user_id ug) g)"
  from assms k have
    t: "gs_total_revenue r = ?total" and m: "gs_member_count r = ?members"
    and d: "sql_div_rounded quot ?total (Some (of_int ?members)) = Inr (gs_avg_revenue_per_member r)"
    by (auto simp: groups_select_rounded_def and_then_Inr_iff)
  have nn: "0 \<le> ?members" by (rule sql_count_distinct_nonneg)
  show ?thesis
  proof (cases ?total)
    case None
    with d have "gs_avg_revenue_per_member r = None"
      by (simp add: sql_div_rounded_def)
    with None t m nn show ?thesis by simp
  next
    case (Some x)
    with d have "?members \<noteq> 0"
      and "gs_avg_revenue_per_member r = Some (quot x (of_int ?members))"
      by (auto simp: sql_div_rounded_def split: if_splits)
    with Some t m nn show ?thesis by simp
  qed
qed

lemma groups_handler_rounded_Data:
  assumes "groups_handler_rounded quot num rd today db q = Data rows"
  shows "\<exists>rs. groups_query_rounded quot rd (date_params today q) db = Inr rs \<and>
           rows = map (groups_row_rounded num) rs"
  using assms by (auto simp: groups_handler_rounded_def split: sum.splits)

lemma groups_query_rounded_row:
  assumes "groups_query_rounded quot rd params db = Inr rs" and "r \<in> set rs"
  shows "\<exists>k g. groups_select_rounded quot (k, g) = Inr r"
proof -
  from assms(1) obtain d1 d2 sel where
    sel: "all_rows (map (groups_select_rounded quot)
             (group_by (\<lambda>(g, ug, s). (g_id g, g_name g)) (groups_from d1 d2 db))) = Inr sel"
    and rs: "rs = sort_key (\<lambda>r. desc_nulls_last (gs_total_revenue r)) sel"
    by (auto simp: groups_query_rounded_def and_then_Inr_iff)
  from assms(2) rs have "r \<in> set sel" by simp
  with all_rows_member[OF sel, of r]
  have "Inr r \<in> groups_select_rounded quot `
          set (group_by (\<lambda>(g, ug, s). (g_id g, g_name g)) (groups_from d1 d2 db))"
    by simp
  then show ?thesis by (force simp: image_iff)
qed

lemma three_member_query:
  "groups_query_rounded quot iso_date (date_params ''2021-12-31'' no_params) three_member_db =
     Inr [\<lparr>gs_id = 1, gs_name = ''North'', gs_member_count = 3, gs_sale_count = 1,
           gs_total_revenue = Some 40000, gs_avg_revenue_per_sale = Some 40000,
           gs_avg_revenue_per_member = Some (quot 40000 3)\<rparr>,
          \<lparr>gs_id = 2, gs_name = ''Empty'', gs_member_count = 0, gs_sale_count = 0,
           gs_total_revenue = None, gs_avg_revenue_per_sale = None,
           gs_avg_revenue_per_member = None\<rparr>]"
  by code_simp simp

lemma three_member_groups:
  "groups_handler_rounded (numeric_div 0 0) nearest_double iso_date ''2021-12-31''
     three_member_db no_params =
     Data [\<lparr>gd_groupId = 1, gd_name = ''North'', gd_memberCount = 3, gd_saleCount = 1,
            gd_totalRevenue = JNum 40000, gd_avgRevenuePerSale = JNum 40000,
            gd_avgRevenuePerMember = JNum (3665038759253333 / 274877906944)\<rparr>,
           \<lparr>gd_groupId = 2, gd_name = ''Empty'', gd_memberCount = 0, gd_saleCount = 0,
            gd_totalRevenue = JNum 0, gd_avgRevenuePerSale = JNum 0,
            gd_avgRevenuePerMember = JNum 0\<rparr>]"
  by (simp add: groups_handler_rounded_def three_member_query groups_row_rounded_def
        parseFloat_rounded_def to_json_or_0_Num numeric_div_40000_3 nearest_double_quotient
        nearest_double_40000 or_0_def to_json_def)

text \<open>
  Claim C3, as amended.  Every row of an emitted group report has a \<open>memberCount\<close> that is
  not negative.  When \<open>memberCount\<close> is 0, and whenever the group has no sale in the date
  range (\<open>SUM(s.amount)\<close> is \<open>NULL\<close>), \<open>totalRevenue\<close> and \<open>avgRevenuePerMember\<close> are the
  number 0: not \<open>null\<close>, and no error.  When the group has sales of total \<open>t\<close>, its
  \<open>memberCount\<close> is positive, \<open>totalRevenue\<close> is the number read from \<open>t\<close>, and
  \<open>avgRevenuePerMember\<close> is the number read from the quotient that the database gives
  \<open>t / memberCount\<close>: the total divided by \<open>memberCount\<close>, rounded first to the scale of
  the \<open>numeric\<close> quotient and then to a double.  This holds whatever the two roundings
  \<open>quot\<close> and \<open>num\<close> are.
\<close>

theorem avgRevenuePerMember_rounded_quotient_or_zero:
  assumes "groups_handler_rounded quot num rd today db q = Data rows" and "row \<in> set rows"
  shows "\<exists>rs r. groups_query_rounded quot rd (date_params today q) db = Inr rs \<and> r \<in> set rs \<and>
           row = groups_row_rounded num r \<and>
           gd_memberCount row = gs_member_count r \<and> 0 \<le> gd_memberCount row \<and>
           (gd_memberCount row = 0 \<longrightarrow>
              gd_totalRevenue row = JNum 0 \<and> gd_avgRevenuePerMember row = JNum 0) \<and>
           (gs_total_revenue r = None \<longrightarrow>
              gd_totalRevenue row = JNum 0 \<and> gd_avgRevenuePerMember row = JNum 0) \<and>
           (\<forall>t. gs_total_revenue r = Some t \<longrightarrow>
              0 < gd_memberCount row \<and> gd_totalRevenue row = JNum (num t) \<and>
              gd_avgRevenuePerMember row = JNum (num (quot t (of_int (gd_memberCount row)))))"
proof -
  from groups_handler_rounded_Data[OF assms(1)] assms(2) obtain rs r where
    q: "groups_query_rounded quot rd (date_params today q) db = Inr rs"
    and r: "r \<in> set rs" and row: "row = groups_row_rounded num r"
    by auto
  from groups_query_rounded_row[OF q r] obtain k g where
    "groups_select_rounded quot (k, g) = Inr r" by blast
  from groups_select_rounded_per_member[OF this] have
    a: "0 \<le> gs_member_count r"
       "gs_member_count r = 0 \<longrightarrow> gs_total_revenue r = None"
       "gs_total_revenue r = None \<longrightarrow> gs_avg_revenue_per_member r = None"
       "\<forall>t. gs_total_revenue r = Some t \<longrightarrow>
            gs_avg_revenue_per_member r = Some (quot t (of_int (gs_member_count r)))"
    by auto
  have m: "gd_memberCount row = gs_member_count r"
    by (simp add: row groups_row_rounded_def)
  have n: "gs_total_revenue r = None \<longrightarrow>
              gd_totalRevenue row = JNum 0 \<and> gd_avgRevenuePerMember row = JNum 0"
    using a(3) by (simp add: row groups_row_rounded_def parseFloat_rounded_def or_0_def to_json_def)
  have s: "\<forall>t. gs_total_revenue r = Some t \<longrightarrow>
              0 < gd_memberCount row \<and> gd_totalRevenue row = JNum (num t) \<and>
              gd_avgRevenuePerMember row = JNum (num (quot t (of_int (gd_memberCount row))))"
  proof (intro allI impI)
    fix t assume t: "gs_total_revenue r = Some t"
    with a(1,2) have "0 < gs_member_count r" by (cases "gs_member_count r = 0") auto
    moreover from t a(4) have "gs_avg_revenue_per_member r = Some (quot t (of_int (gs_member_count r)))"
      by simp
    ultimately show "0 < gd_memberCount row \<and> gd_totalRevenue row = JNum (num t) \<and>
              gd_avgRevenuePerMember row = JNum (num (quot t (of_int (gd_memberCount row))))"
      using t by (simp add: row groups_row_rounded_def parseFloat_rounded_def to_json_or_0_Num)
  qed
  from a(2) n have z: "gd_memberCount row = 0 \<longrightarrow>
              gd_totalRevenue row = JNum 0 \<and> gd_avgRevenuePerMember row = JNum 0"
    using m by simp
  from q r row m a(1) z n s show ?thesis by (intro exI[of _ rs] exI[of _ r]) simp
qed

theorem avgRevenuePerMember_rounded_quotient_or_zero_witness:
  "groups_handler_rounded (numeric_div 0 0) nearest_double iso_date ''2021-12-31''
     three_member_db no_params =
     Data [\<lparr>gd_groupId = 1, gd_name = ''North'', gd_memberCount = 3, gd_saleCount = 1,
            gd_totalRevenue = JNum 40000, gd_avgRevenuePerSale = JNum 40000,
            gd_avgRevenuePerMember = JNum (3665038759253333 / 274877906944)\<rparr>,
           \<lparr>gd_groupId = 2, gd_name = ''Empty'', gd_memberCount = 0, gd_saleCount = 0,
            gd_totalRevenue = JNum 0, gd_avgRevenuePerSale = JNum 0,
            gd_avgRevenuePerMember = JNum 0\<rparr>] \<and>
   (\<exists>rs r. groups_query_rounded (numeric_div 0 0) iso_date
              (date_params ''2021-12-31'' no_params) three_member_db = Inr rs \<and>
      r \<in> set rs \<and> gs_id r = 1 \<and> gs_member_count r = 3 \<and> gs_total_revenue r = Some 40000 \<and>
      JNum (3665038759253333 / 274877906944) =
        JNum (nearest_double (numeric_div 0 0 40000 (of_int 3))))"
proof -
  let ?north = "\<lparr>gd_groupId = 1, gd_name = ''North'', gd_memberCount = 3, gd_saleCount = 1,
            gd_totalRevenue = JNum 40000, gd_avgRevenuePerSale = JNum 40000,
            gd_avgRevenuePerMember = JNum (3665038759253333 / 274877906944)\<rparr>"
  let ?empty = "\<lparr>gd_groupId = 2, gd_name = ''Empty'', gd_memberCount = 0, gd_saleCount = 0,
            gd_totalRevenue = JNum 0, gd_avgRevenuePerSale = JNum 0,
            gd_avgRevenuePerMember = JNum 0\<rparr>"
  note h = three_member_groups
  have m: "?north \<in> set [?north, ?empty]" by simp
  from avgRevenuePerMember_rounded_quotient_or_zero[OF h m] obtain rs r where
    q: "groups_query_rounded (numeric_div 0 0) iso_date
          (date_params ''2021-12-31'' no_params) three_member_db = Inr rs"
    and r: "r \<in> set rs" and row: "?north = groups_row_rounded nearest_double r"
    and mc: "gd_memberCount ?north = gs_member_count r"
    and s: "\<forall>t. gs_total_revenue r = Some t \<longrightarrow>
              0 < gd_memberCount ?north \<and> gd_totalRevenue ?north = JNum (nearest_double t) \<and>
              gd_avgRevenuePerMember ?north =
                JNum (nearest_double (numeric_div 0 0 t (of_int (gd_memberCount ?north))))"
    by blast
  from row have id: "gs_id r = 1"
    by (simp add: groups_row_rounded_def)
  from q r id have t: "gs_total_revenue r = Some 40000"
    by (auto simp: three_member_query)
  from mc have mc3: "gs_member_count r = 3" by simp
  from s t have e: "JNum (3665038759253333 / 274877906944) =
        JNum (nearest_double (numeric_div 0 0 40000 (of_int 3)))"
    by simp
  show ?thesis
    by (intro conjI exI[of _ rs] exI[of _ r]) (fact h q r id mc3 t e)+
qed

text \<open>The group without members is emitted with \<open>avgRevenuePerMember\<close> 0, not \<open>null\<close>.
  For a group of three members with a total of 40000 the database's quotient is
  13333.333333333333 and the emitted number the double next to it, 13333.333333333332
  (3665038759253333 / 2^38): neither 40000 / 3 nor the double next to 40000 / 3.\<close>

theorem empty_group_avgRevenuePerMember_is_zero:
  "groups_handler iso_date ''2021-12-31'' sample_db no_params =
     Data [\<lparr>gd_groupId = 1, gd_name = ''North'', gd_memberCount = 1, gd_saleCount = 2,
            gd_totalRevenue = JNum 40000, gd_avgRevenuePerSale = JNum 20000,
            gd_avgRevenuePerMember = JNum 40000\<rparr>,
           \<lparr>gd_groupId = 2, gd_name = ''Empty'', gd_memberCount = 0, gd_saleCount = 0,
            gd_totalRevenue = JNum 0, gd_avgRevenuePerSale = JNum 0,
            gd_avgRevenuePerMember = JNum 0\<rparr>] \<and>
   JNum 0 \<noteq> JNull \<and>
   groups_handler_rounded (numeric_div 0 0) nearest_double iso_date ''2021-12-31''
     three_member_db no_params =
     Data [\<lparr>gd_groupId = 1, gd_name = ''North'', gd_memberCount = 3, gd_saleCount = 1,
            gd_totalRevenue = JNum 40000, gd_avgRevenuePerSale = JNum 40000,
            gd_avgRevenuePerMember = JNum (3665038759253333 / 274877906944)\<rparr>,
           \<lparr>gd_groupId = 2, gd_name = ''Empty'', gd_memberCount = 0, gd_saleCount = 0,
            gd_totalRevenue = JNum 0, gd_avgRevenuePerSale = JNum 0,
            gd_avgRevenuePerMember = JNum 0\<rparr>] \<and>
   numeric_div 0 0 40000 3 = 13333333333333333 / 1000000000000 \<and>
   numeric_div 2 0 40000 3 = 13333333333333333 / 1000000000000 \<and>
   nearest_double (13333333333333333 / 1000000000000) = 3665038759253333 / 274877906944 \<and>
   JNum (3665038759253333 / 274877906944) \<noteq> JNum (40000 / 3) \<and>
   JNum (3665038759253333 / 274877906944) \<noteq> JNum (nearest_double (40000 / 3))"
proof -
  have "numeric_div 2 0 40000 3 = 13333333333333333 / 1000000000000"
    by (simp add: numeric_div_def select_div_scale_def first_digit_def weight_40000 weight_3
          int_power_def round_to_scale_def Let_def)
  then show ?thesis
    using sample_groups three_member_groups numeric_div_40000_3 nearest_double_quotient
      nearest_double_third
    by simp
qed

subsection \<open>Ranking\<close>

lemma desc_nulls_last_le:
  "desc_nulls_last v \<le> desc_nulls_last w \<Longrightarrow>
     (case w of None \<Rightarrow> True | Some b \<Rightarrow> (case v of None \<Rightarrow> False | Some a \<Rightarrow> b \<le> a))"
  by (auto simp: desc_nulls_last_def split: option.splits)

lemma sorted_desc_nulls_last:
  assumes "sorted (map (\<lambda>r. desc_nulls_last (f r)) rs)"
  shows "descending_nulls_last (map f rs)"
proof -
  from assms have "sorted_wrt (\<lambda>x y. desc_nulls_last (f x) \<le> desc_nulls_last (f y)) rs"
    by (simp add: sorted_wrt_map)
  then have "sorted_wrt (\<lambda>x y. case f y of None \<Rightarrow> True
                 | Some b \<Rightarrow> (case f x of None \<Rightarrow> False | Some a \<Rightarrow> b \<le> a)) rs"
    by (rule sorted_wrt_mono_rel[rotated]) (rule desc_nulls_last_le)
  then show ?thesis
    by (simp add: descending_nulls_last_def sorted_wrt_map)
qed

lemma users_ranked:
  assumes "users_handler rd today db q = Data rows"
  shows "\<exists>rs. users_query rd (users_params today q) db = Inr rs \<and> rows = map users_row rs \<and>
           descending_nulls_last (map us_total_revenue rs)"
proof -
  from users_handler_Data[OF assms] obtain rs where
    q: "users_query rd (users_params today q) db = Inr rs" and rows: "rows = map users_row rs"
    by blast
  from users_query_Inr[OF q] obtain n sel where
    rs: "rs = take n (sort_key (\<lambda>r. desc_nulls_last (us_total_revenue r)) sel)"
    by blast
  have "sorted (map (\<lambda>r. desc_nulls_last (us_total_revenue r))
          (sort_key (\<lambda>r. desc_nulls_last (us_total_revenue r)) sel))"
    by (rule sorted_sort_key)
  then have "sorted (take n (map (\<lambda>r. desc_nulls_last (us_total_revenue r))
          (sort_key (\<lambda>r. desc_nulls_last (us_total_revenue r)) sel)))"
    by (rule sorted_wrt_take)
  then have "sorted (map (\<lambda>r. desc_nulls_last (us_total_revenue r)) rs)"
    by (simp add: rs take_map)
  from sorted_desc_nulls_last[OF this] q rows show ?thesis by blast
qed

lemma groups_ranked:
  assumes "groups_handler rd today db q = Data rows"
  shows "\<exists>rs. groups_query rd (date_params today q) db = Inr rs \<and> rows = map groups_row rs \<and>
           descending_nulls_last (map gs_total_revenue rs)"
proof -
  from groups_handler_Data[OF assms] obtain rs where
    q: "groups_query rd (date_params today q) db = Inr rs" and rows: "rows = map groups_row rs"
    by blast
  from groups_query_Inr[OF q] obtain sel where
    rs: "rs = sort_key (\<lambda>r. desc_nulls_last (gs_total_revenue r)) sel"
    by blast
  have "sorted (map (\<lambda>r. desc_nulls_last (gs_total_revenue r)) rs)"
    unfolding rs by (rule sorted_sort_key)
  from sorted_desc_nulls_last[OF this] q rows show ?thesis by blast
qed

lemma sql_sum_nonneg:
  assumes "\<forall>x. Some x \<in> set col \<longrightarrow> 0 \<le> x" and "sql_sum col = Some t"
  shows "0 \<le> t"
proof -
  from assms(2) have t: "t = sum_list (non_null col)"
    by (simp add: sql_sum_def split: if_splits)
  have "\<forall>x \<in> set (non_null col). 0 \<le> x"
    using assms(1) by (simp add: set_non_null)
  then show ?thesis unfolding t by (intro sum_list_nonneg) simp
qed

lemma left_join_Some: "Some x \<in> set (left_join on t) \<Longrightarrow> x \<in> set t"
  by (auto simp: left_join_def split: if_splits)

lemma users_from_sale:
  "(u, Some s, ug, g) \<in> set (users_from d1 d2 db) \<Longrightarrow> s \<in> set (sales db)"
  by (auto simp: in_users_from dest: left_join_Some)

lemma groups_from_sale:
  "(g, ug, Some s) \<in> set (groups_from d1 d2 db) \<Longrightarrow> s \<in> set (sales db)"
  by (auto simp: in_groups_from dest: left_join_Some split: option.splits)

lemma to_json_or_0: "to_json (or_0 (parseFloat v)) = JNum (revenue_or_0 v)"
  by (auto simp: to_json_def or_0_def parseFloat_def revenue_or_0_def split: option.splits)

lemma descending_revenue_or_0:
  assumes "descending_nulls_last col" and "\<forall>x. Some x \<in> set col \<longrightarrow> 0 \<le> x"
  shows "sorted_wrt (\<lambda>a b. b \<le> a) (map revenue_or_0 col)"
proof -
  have "sorted_wrt (\<lambda>v w. revenue_or_0 w \<le> revenue_or_0 v) col"
  proof (rule sorted_wrt_mono_rel[OF _ assms(1)[unfolded descending_nulls_last_def]])
    fix v w
    assume "v \<in> set col" "w \<in> set col"
      and "case w of None \<Rightarrow> True | Some b \<Rightarrow> (case v of None \<Rightarrow> False | Some a \<Rightarrow> b \<le> a)"
    with assms(2) show "revenue_or_0 w \<le> revenue_or_0 v"
      by (auto simp: revenue_or_0_def split: option.splits)
  qed
  then show ?thesis by (simp add: sorted_wrt_map)
qed

lemma users_totals_nonneg:
  assumes "\<forall>s \<in> set (sales db). 0 \<le> s_amount s"
    and "users_query rd (users_params today q) db = Inr rs"
  shows "\<forall>x. Some x \<in> set (map us_total_revenue rs) \<longrightarrow> 0 \<le> x"
proof (intro allI impI)
  fix x assume "Some x \<in> set (map us_total_revenue rs)"
  then obtain r where r: "r \<in> set rs" and x: "us_total_revenue r = Some x" by auto
  from users_query_Inr[OF assms(2)] obtain d1 d2 n sel where
    sel: "all_rows (map users_select
             (group_by (\<lambda>(u, s, ug, g). (u_id u, u_name u, u_role u)) (users_from d1 d2 db))) = Inr sel"
    and rs: "rs = take n (sort_key (\<lambda>r. desc_nulls_last (us_total_revenue r)) sel)"
    by blast
  from r rs have "r \<in> set sel" by (auto dest: in_set_takeD)
  then obtain k g where kg: "(k, g) \<in> set (group_by (\<lambda>(u, s, ug, g). (u_id u, u_name u, u_role u))
      (users_from d1 d2 db))" and s: "users_select (k, g) = Inr r"
    using users_selected[OF sel] by blast
  obtain i nm rl where k: "k = (i, nm, rl)" by (cases k)
  from users_select_fields[OF s[unfolded k]] x have
    t: "sql_sum (map (\<lambda>(u, s, ug, g). map_option s_amount s) g) = Some x" by simp
  from group_by_member[OF kg] have sub: "set g \<subseteq> set (users_from d1 d2 db)" by auto
  have "\<forall>y. Some y \<in> set (map (\<lambda>(u, s, ug, g). map_option s_amount s) g) \<longrightarrow> 0 \<le> y"
  proof (intro allI impI)
    fix y assume "Some y \<in> set (map (\<lambda>(u, s, ug, g). map_option s_amount s) g)"
    then obtain u s ug gr where "(u, Some s, ug, gr) \<in> set g" and "y = s_amount s"
      by (auto split: prod.splits) (metis (no_types) map_option_eq_Some)
    with sub users_from_sale[of u s ug gr d1 d2 db] assms(1) show "0 \<le> y" by auto
  qed
  from sql_sum_nonneg[OF this t] show "0 \<le> x" .
qed

lemma groups_selected_iff:
  assumes "all_rows (map groups_select (group_by key rows)) = Inr sel"
  shows "r \<in> set sel \<longleftrightarrow> (\<exists>k g. (k, g) \<in> set (group_by key rows) \<and> groups_select (k, g) = Inr r)"
proof -
  have "r \<in> set sel \<longleftrightarrow> Inr r \<in> groups_select ` set (group_by key rows)"
    using all_rows_member[OF assms, of r] by simp
  also have "\<dots> \<longleftrightarrow> (\<exists>k g. (k, g) \<in> set (group_by key rows) \<and> groups_select (k, g) = Inr r)"
    by (force simp: image_iff)
  finally show ?thesis .
qed

lemma groups_totals_nonneg:
  assumes "\<forall>s \<in> set (sales db). 0 \<le> s_amount s"
    and "groups_query rd (date_params today q) db = Inr rs"
  shows "\<forall>x. Some x \<in> set (map gs_total_revenue rs) \<longrightarrow> 0 \<le> x"
proof (intro allI impI)
  fix x assume "Some x \<in> set (map gs_total_revenue rs)"
  then obtain r where r: "r \<in> set rs" and x: "gs_total_revenue r = Some x" by auto
  from groups_query_Inr[OF assms(2)] obtain d1 d2 sel where
    sel: "all_rows (map groups_select
             (group_by (\<lambda>(g, ug, s). (g_id g, g_name g)) (groups_from d1 d2 db))) = Inr sel"
    and rs: "rs = sort_key (\<lambda>r. desc_nulls_last (gs_total_revenue r)) sel"
    by blast
  from r rs have "r \<in> set sel" by simp
  then obtain k g where kg: "(k, g) \<in> set (group_by (\<lambda>(g, ug, s). (g_id g, g_name g))
      (groups_from d1 d2 db))" and s: "groups_select (k, g) = Inr r"
    using groups_selected_iff[OF sel] by blast
  from s x have
    t: "sql_sum (map (\<lambda>(g, ug, s). map_option s_amount s) g) = Some x"
    by (auto simp: groups_select_def and_then_Inr_iff split: prod.splits)
  from group_by_member[OF kg] have sub: "set g \<subseteq> set (groups_from d1 d2 db)" by auto
  have "\<forall>y. Some y \<in> set (map (\<lambda>(g, ug, s). map_option s_amount s) g) \<longrightarrow> 0 \<le> y"
  proof (intro allI impI)
    fix y assume "Some y \<in> set (map (\<lambda>(g, ug, s). map_option s_amount s) g)"
    then obtain gr ug s where "(gr, ug, Some s) \<in> set g" and "y = s_amount s"
      by (auto split: prod.splits) (metis (no_types) map_option_eq_Some)
    with sub groups_from_sale[of gr ug s d1 d2 db] assms(1) show "0 \<le> y" by auto
  qed
  from sql_sum_nonneg[OF this t] show "0 \<le> x" .
qed

lemma users_output_descending:
  assumes "\<forall>s \<in> set (sales db). 0 \<le> s_amount s"
    and "users_query rd (users_params today q) db = Inr rs"
    and "descending_nulls_last (map us_total_revenue rs)"
  shows "\<exists>ts. map ud_totalRevenue (map users_row rs) = map JNum ts \<and> sorted_wrt (\<lambda>a b. b \<le> a) ts"
proof -
  have "map ud_totalRevenue (map users_row rs) = map JNum (map revenue_or_0 (map us_total_revenue rs))"
    by (simp add: users_row_def to_json_or_0)
  moreover from descending_revenue_or_0[OF assms(3) users_totals_nonneg[OF assms(1,2)]]
  have "sorted_wrt (\<lambda>a b. b \<le> a) (map revenue_or_0 (map us_total_revenue rs))" .
  ultimately show ?thesis by blast
qed

lemma groups_output_descending:
  assumes "\<forall>s \<in> set (sales db). 0 \<le> s_amount s"
    and "groups_query rd (date_params today q) db = Inr rs"
    and "descending_nulls_last (map gs_total_revenue rs)"
  shows "\<exists>ts. map gd_totalRevenue (map groups_row rs) = map JNum ts \<and> sorted_wrt (\<lambda>a b. b \<le> a) ts"
proof -
  have "map gd_totalRevenue (map groups_row rs) = map JNum (map revenue_or_0 (map gs_total_revenue rs))"
    by (simp add: groups_row_def to_json_or_0)
  moreover from descending_revenue_or_0[OF assms(3) groups_totals_nonneg[OF assms(1,2)]]
  have "sorted_wrt (\<lambda>a b. b \<le> a) (map revenue_or_0 (map gs_total_revenue rs))" .
  ultimately show ?thesis by blast
qed

text \<open>
  Claim C7.  The rows of the user report and of the group report are the rows of their
  queries, in the order of the query, and in that order the total revenue is descending
  with every \<open>NULL\<close> total after all totals that are not \<open>NULL\<close>.  The order is fixed by
  \<open>ORDER BY total_revenue DESC NULLS LAST\<close>; no parameter chooses a direction.  In the
  response a \<open>NULL\<close> total is written as 0, and when no sale has a negative amount the
  emitted \<open>totalRevenue\<close> values are descending, too.
\<close>

theorem ranked_reports_descending_nulls_last:
  "(users_handler rd today db q = Data urows \<longrightarrow>
      (\<exists>rs. users_query rd (users_params today q) db = Inr rs \<and> urows = map users_row rs \<and>
         descending_nulls_last (map us_total_revenue rs) \<and>
         ((\<forall>s \<in> set (sales db). 0 \<le> s_amount s) \<longrightarrow>
            (\<exists>ts. map ud_totalRevenue urows = map JNum ts \<and> sorted_wrt (\<lambda>a b. b \<le> a) ts)))) \<and>
   (groups_handler rd today db q = Data grows \<longrightarrow>
      (\<exists>rs. groups_query rd (date_params today q) db = Inr rs \<and> grows = map groups_row rs \<and>
         descending_nulls_last (map gs_total_revenue rs) \<and>
         ((\<forall>s \<in> set (sales db). 0 \<le> s_amount s) \<longrightarrow>
            (\<exists>ts. map gd_totalRevenue grows = map JNum ts \<and> sorted_wrt (\<lambda>a b. b \<le> a) ts))))"
proof (intro conjI impI)
  assume "users_handler rd today db q = Data urows"
  from users_ranked[OF this] obtain rs where
    a: "users_query rd (users_params today q) db = Inr rs" "urows = map users_row rs"
       "descending_nulls_last (map us_total_revenue rs)"
    by blast
  have "(\<forall>s \<in> set (sales db). 0 \<le> s_amount s) \<longrightarrow>
            (\<exists>ts. map ud_totalRevenue urows = map JNum ts \<and> sorted_wrt (\<lambda>a b. b \<le> a) ts)"
    using users_output_descending[OF _ a(1) a(3)] a(2) by blast
  with a show "\<exists>rs. users_query rd (users_params today q) db = Inr rs \<and> urows = map users_row rs \<and>
         descending_nulls_last (map us_total_revenue rs) \<and>
         ((\<forall>s \<in> set (sales db). 0 \<le> s_amount s) \<longrightarrow>
            (\<exists>ts. map ud_totalRevenue urows = map JNum ts \<and> sorted_wrt (\<lambda>a b. b \<le> a) ts))"
    by blast
next
  assume "groups_handler rd today db q = Data grows"
  from groups_ranked[OF this] obtain rs where
    a: "groups_query rd (date_params today q) db = Inr rs" "grows = map groups_row rs"
       "descending_nulls_last (map gs_total_revenue rs)"
    by blast
  have "(\<forall>s \<in> set (sales db). 0 \<le> s_amount s) \<longrightarrow>
            (\<exists>ts. map gd_totalRevenue grows = map JNum ts \<and> sorted_wrt (\<lambda>a b. b \<le> a) ts)"
    using groups_output_descending[OF _ a(1) a(3)] a(2) by blast
  with a show "\<exists>rs. groups_query rd (date_params today q) db = Inr rs \<and> grows = map groups_row rs \<and>
         descending_nulls_last (map gs_total_revenue rs) \<and>
         ((\<forall>s \<in> set (sales db). 0 \<le> s_amount s) \<longrightarrow>
            (\<exists>ts. map gd_totalRevenue grows = map JNum ts \<and> sorted_wrt (\<lambda>a b. b \<le> a) ts))"
    by blast
qed

theorem ranked_reports_descending_nulls_last_witness:
  "users_handler iso_date ''2021-12-31'' sample_db no_params =
     Data [\<lparr>ud_userId = 1, ud_name = ''Ann'', ud_role = ''Agent'', ud_saleCount = 2,
            ud_totalRevenue = JNum 40000, ud_averageRevenue = JNum 20000,
            ud_activeDays = 2, ud_groups = [''North'', ''North'']\<rparr>,
           \<lparr>ud_userId = 2, ud_name = ''Bob'', ud_role = ''Agent'', ud_saleCount = 2,
            ud_totalRevenue = JNum 37375, ud_averageRevenue = JNum (37375 / 2),
            ud_activeDays = 2, ud_groups = []\<rparr>,
           \<lparr>ud_userId = 3, ud_name = ''Cy'', ud_role = ''Agent'', ud_saleCount = 0,
            ud_totalRevenue = JNum 0, ud_averageRevenue = JNum 0,
            ud_activeDays = 0, ud_groups = []\<rparr>] \<and>
   (\<exists>rs. users_query iso_date (users_params ''2021-12-31'' no_params) sample_db = Inr rs \<and>
      map us_total_revenue rs = [Some 40000, Some 37375, None] \<and>
      descending_nulls_last (map us_total_revenue rs))"
proof -
  note h = sample_users
  from ranked_reports_descending_nulls_last[where rd = iso_date and today = "''2021-12-31''"
      and db = sample_db and q = no_params, THEN conjunct1, rule_format, OF h]
  obtain rs where
    q: "users_query iso_date (users_params ''2021-12-31'' no_params) sample_db = Inr rs"
    and r: "descending_nulls_last (map us_total_revenue rs)"
    by blast
  have "users_query iso_date (users_params ''2021-12-31'' no_params) sample_db =
     Inr [\<lparr>us_id = 1, us_name = ''Ann'', us_role = ''Agent'', us_sale_count = 2,
         us_total_revenue = Some 40000, us_avg_revenue = Some 20000,
         us_active_days = 2, us_groups = [Some ''North'', Some ''North'']\<rparr>,
      \<lparr>us_id = 2, us_name = ''Bob'', us_role = ''Agent'', us_sale_count = 2,
         us_total_revenue = Some 37375, us_avg_revenue = Some (37375 / 2),
         us_active_days = 2, us_groups = [None, None]\<rparr>,
      \<lparr>us_id = 3, us_name = ''Cy'', us_role = ''Agent'', us_sale_count = 0,
         us_total_revenue = None, us_avg_revenue = None, us_active_days = 0,
         us_groups = [None]\<rparr>]"
    by code_simp
  with q have t: "map us_total_revenue rs = [Some 40000, Some 37375, None]" by auto
  from h q t r show ?thesis by simp
qed

subsection \<open>Where the code departs from the claims\<close>

text \<open>
  Claim C5 says that \<open>groups\<close> of a user row is the deduplicated list of the names of the
  user's groups and does not depend on the date range.  \<open>json_agg(g.name)\<close> aggregates
  over the join with the sales, so a name is repeated once per matching sale: Ann, in one
  group, has \<open>groups\<close> \<open>North, North\<close> with her two sales in the range, and \<open>North\<close> once
  the range holds only one of them.
\<close>

theorem groups_repeated_per_sale:
  "users_handler iso_date ''2021-12-31'' sample_db no_params =
     Data [\<lparr>ud_userId = 1, ud_name = ''Ann'', ud_role = ''Agent'', ud_saleCount = 2,
            ud_totalRevenue = JNum 40000, ud_averageRevenue = JNum 20000,
            ud_activeDays = 2, ud_groups = [''North'', ''North'']\<rparr>,
           \<lparr>ud_userId = 2, ud_name = ''Bob'', ud_role = ''Agent'', ud_saleCount = 2,
            ud_totalRevenue = JNum 37375, ud_averageRevenue = JNum (37375 / 2),
            ud_activeDays = 2, ud_groups = []\<rparr>,
           \<lparr>ud_userId = 3, ud_name = ''Cy'', ud_role = ''Agent'', ud_saleCount = 0,
            ud_totalRevenue = JNum 0, ud_averageRevenue = JNum 0,
            ud_activeDays = 0, ud_groups = []\<rparr>] \<and>
   users_handler iso_date ''2021-12-31'' sample_db (no_params\<lparr>endDate := Some ''2021-01-10''\<rparr>) =
     Data [\<lparr>ud_userId = 1, ud_name = ''Ann'', ud_role = ''Agent'', ud_saleCount = 1,
            ud_totalRevenue = JNum 20000, ud_averageRevenue = JNum 20000,
            ud_activeDays = 1, ud_groups = [''North'']\<rparr>,
           \<lparr>ud_userId = 2, ud_name = ''Bob'', ud_role = ''Agent'', ud_saleCount = 0,
            ud_totalRevenue = JNum 0, ud_averageRevenue = JNum 0,
            ud_activeDays = 0, ud_groups = []\<rparr>,
           \<lparr>ud_userId = 3, ud_name = ''Cy'', ud_role = ''Agent'', ud_saleCount = 0,
            ud_totalRevenue = JNum 0, ud_averageRevenue = JNum 0,
            ud_activeDays = 0, ud_groups = []\<rparr>]"
  by code_simp

text \<open>
  Claim C1 says that \<open>growthPercentage\<close> is \<open>null\<close> when the revenue of the period before
  is \<open>null\<close> or zero, and that the computation raises no error.  \<open>CASE WHEN prev_revenue
  IS NOT NULL\<close> guards \<open>NULL\<close> only: after a month whose revenue is 0 the division by
  \<open>prev_revenue\<close> raises, and the whole report is answered with status 500.
\<close>

theorem growth_divides_by_zero_revenue:
  "stats Month (2021, 1, 1) (2021, 12, 31) zero_month_db =
     [\<lparr>st_period = (2021, 1, 1), st_total_revenue = Some 0, st_sale_count = 1,
       st_prev_revenue = None\<rparr>,
      \<lparr>st_period = (2021, 2, 1), st_total_revenue = Some 500, st_sale_count = 1,
       st_prev_revenue = Some 0\<rparr>] \<and>
   growth_percentage (Some 500) (Some 0) = Inl Division_by_zero \<and>
   trends_handler iso_date ''2021-12-31'' zero_month_db no_params = Internal_server_error"
  by code_simp

end
